theory Spec2Isabelle
  imports Complex_Main "HOL-Library.Word"
begin

unbundle bit_operations_syntax

section \<open>Gopher: controller snapshot, configuration and mapper state\<close>

text \<open>
  The development follows \<^verbatim>\<open>Windows/Gopher/Gopher.cpp\<close>. Conventions of the embedding:
  \<^item> \<^verbatim>\<open>WORD\<close>, \<^verbatim>\<open>DWORD\<close>, \<^verbatim>\<open>BYTE\<close> and \<^verbatim>\<open>short\<close> are machine words of their width; a
    \<^verbatim>\<open>short\<close> is read with \<open>sint\<close>.
  \<^item> \<^verbatim>\<open>int\<close> arithmetic is carried out in the integers. Signed overflow is undefined in
    the source; it would need a dead zone beyond 46340, the stick at (-32768, -32768), or a
    button held for weeks.
  \<^item> \<^verbatim>\<open>float\<close> arithmetic is carried out in the reals, so rounding is not part of the
    model; \<^verbatim>\<open>sqrt\<close> is \<open>sqrt\<close> and \<^verbatim>\<open>pow\<close> is \<open>powr\<close>.
  \<^item> A \<^verbatim>\<open>std::map\<close> is a partial function; \<^verbatim>\<open>operator[]\<close> on a missing key reads the
    value-initialised entry (\<open>False\<close>, \<open>0\<close>).
  \<^item> Every call that leaves the program (\<^verbatim>\<open>SendInput\<close>, \<^verbatim>\<open>SetCursorPos\<close>, \<^verbatim>\<open>Vibrate\<close>,
    \<^verbatim>\<open>Sleep\<close>, \<^verbatim>\<open>ShowWindow\<close>) is appended to a trace kept in the state. Console output
    by \<^verbatim>\<open>printf\<close> is left out of the trace.
  \<^item> The class declaration \<^verbatim>\<open>Gopher.h\<close> is not among the sources. Its constants
    \<^verbatim>\<open>FPS\<close>, \<^verbatim>\<open>SLEEP_AMOUNT\<close> and \<^verbatim>\<open>TRIGGER_DEAD_ZONE\<close> are therefore fields of the
    configuration record, next to the values read by \<^verbatim>\<open>loadConfigFile\<close>.
\<close>

type_synonym WORD = "16 word"
type_synonym DWORD = "32 word"
type_synonym BYTE = "8 word"
type_synonym SHORT = "16 word"

subsection \<open>Platform constants\<close>

definition VK_LBUTTON :: WORD where "VK_LBUTTON = 0x01"
definition VK_RBUTTON :: WORD where "VK_RBUTTON = 0x02"
definition VK_MBUTTON :: WORD where "VK_MBUTTON = 0x04"

definition KEYEVENTF_KEYUP :: DWORD where "KEYEVENTF_KEYUP = 0x0002"

definition MOUSEEVENTF_LEFTDOWN :: DWORD where "MOUSEEVENTF_LEFTDOWN = 0x0002"
definition MOUSEEVENTF_LEFTUP :: DWORD where "MOUSEEVENTF_LEFTUP = 0x0004"
definition MOUSEEVENTF_RIGHTDOWN :: DWORD where "MOUSEEVENTF_RIGHTDOWN = 0x0008"
definition MOUSEEVENTF_RIGHTUP :: DWORD where "MOUSEEVENTF_RIGHTUP = 0x0010"
definition MOUSEEVENTF_MIDDLEDOWN :: DWORD where "MOUSEEVENTF_MIDDLEDOWN = 0x0020"
definition MOUSEEVENTF_MIDDLEUP :: DWORD where "MOUSEEVENTF_MIDDLEUP = 0x0040"
definition MOUSEEVENTF_XDOWN :: DWORD where "MOUSEEVENTF_XDOWN = 0x0080"
definition MOUSEEVENTF_XUP :: DWORD where "MOUSEEVENTF_XUP = 0x0100"
definition MOUSEEVENTF_WHEEL :: DWORD where "MOUSEEVENTF_WHEEL = 0x0800"
definition MOUSEEVENTF_HWHEEL :: DWORD where "MOUSEEVENTF_HWHEEL = 0x1000"

definition XINPUT_GAMEPAD_DPAD_UP :: DWORD where "XINPUT_GAMEPAD_DPAD_UP = 0x0001"
definition XINPUT_GAMEPAD_DPAD_DOWN :: DWORD where "XINPUT_GAMEPAD_DPAD_DOWN = 0x0002"
definition XINPUT_GAMEPAD_DPAD_LEFT :: DWORD where "XINPUT_GAMEPAD_DPAD_LEFT = 0x0004"
definition XINPUT_GAMEPAD_DPAD_RIGHT :: DWORD where "XINPUT_GAMEPAD_DPAD_RIGHT = 0x0008"
definition XINPUT_GAMEPAD_START :: DWORD where "XINPUT_GAMEPAD_START = 0x0010"
definition XINPUT_GAMEPAD_BACK :: DWORD where "XINPUT_GAMEPAD_BACK = 0x0020"
definition XINPUT_GAMEPAD_LEFT_THUMB :: DWORD where "XINPUT_GAMEPAD_LEFT_THUMB = 0x0040"
definition XINPUT_GAMEPAD_RIGHT_THUMB :: DWORD where "XINPUT_GAMEPAD_RIGHT_THUMB = 0x0080"
definition XINPUT_GAMEPAD_LEFT_SHOULDER :: DWORD where "XINPUT_GAMEPAD_LEFT_SHOULDER = 0x0100"
definition XINPUT_GAMEPAD_RIGHT_SHOULDER :: DWORD where "XINPUT_GAMEPAD_RIGHT_SHOULDER = 0x0200"
definition XINPUT_GAMEPAD_A :: DWORD where "XINPUT_GAMEPAD_A = 0x1000"
definition XINPUT_GAMEPAD_B :: DWORD where "XINPUT_GAMEPAD_B = 0x2000"
definition XINPUT_GAMEPAD_X :: DWORD where "XINPUT_GAMEPAD_X = 0x4000"
definition XINPUT_GAMEPAD_Y :: DWORD where "XINPUT_GAMEPAD_Y = 0x8000"

definition MAXSHORT :: int where "MAXSHORT = 0x7fff"

definition LONG_PRESS_TIME :: int where "LONG_PRESS_TIME = 200"

subsection \<open>Data\<close>

text \<open>The \<^verbatim>\<open>Gamepad\<close> member of \<^verbatim>\<open>XINPUT_STATE\<close>: the snapshot read once per tick.\<close>

record XINPUT_GAMEPAD =
  wButtons :: WORD
  bLeftTrigger :: BYTE
  bRightTrigger :: BYTE
  sThumbLX :: SHORT
  sThumbLY :: SHORT
  sThumbRX :: SHORT
  sThumbRY :: SHORT

text \<open>What \<^verbatim>\<open>loadConfigFile\<close> leaves behind, and the constants of the class declaration.\<close>

record config =
  CONFIG_MOUSE_LEFT :: DWORD
  CONFIG_MOUSE_RIGHT :: DWORD
  CONFIG_MOUSE_MIDDLE :: DWORD
  CONFIG_HIDE :: DWORD
  CONFIG_DISABLE :: DWORD
  CONFIG_DISABLE_VIBRATION :: DWORD
  CONFIG_SPEED_CHANGE :: DWORD
  CONFIG_OSK :: DWORD
  GAMEPAD_DPAD_UP :: "WORD list"
  GAMEPAD_DPAD_DOWN :: "WORD list"
  GAMEPAD_DPAD_LEFT :: "WORD list"
  GAMEPAD_DPAD_RIGHT :: "WORD list"
  GAMEPAD_START :: "WORD list"
  GAMEPAD_BACK :: "WORD list"
  GAMEPAD_LEFT_THUMB :: "WORD list"
  GAMEPAD_RIGHT_THUMB :: "WORD list"
  GAMEPAD_LEFT_SHOULDER :: "WORD list"
  GAMEPAD_RIGHT_SHOULDER :: "WORD list"
  GAMEPAD_A :: "WORD list"
  GAMEPAD_B :: "WORD list"
  GAMEPAD_X :: "WORD list"
  GAMEPAD_Y :: "WORD list"
  GAMEPAD_TRIGGER_LEFT :: "WORD list"
  GAMEPAD_TRIGGER_RIGHT :: "WORD list"
  acceleration_factor :: real
  DEAD_ZONE :: int
  SCROLL_DEAD_ZONE :: int
  SCROLL_SPEED :: real
  speeds :: "real list"
  speed_names :: "string list"
  SWAP_THUMBSTICKS :: int
  TRIGGER_DEAD_ZONE :: int
  FPS :: int
  SLEEP_AMOUNT :: int

datatype window = ConsoleWindow | OskWindow

datatype show_cmd = SW_HIDE | SW_SHOW | SW_RESTORE | SW_MINIMIZE

text \<open>
  The calls that leave the program. \<open>KeyboardInput cmds flag\<close> is one \<^verbatim>\<open>SendInput\<close> call
  carrying one keyboard input per element of \<open>cmds\<close>; \<open>MouseInput dwFlags mouseData\<close> is
  one \<^verbatim>\<open>SendInput\<close> call with a single mouse input.
\<close>

datatype event =
    KeyboardInput "WORD list" DWORD
  | MouseInput DWORD DWORD
  | SetCursorPos int int
  | Vibrate int int
  | SleepMs int
  | ShowWindow window show_cmd

text \<open>The members of \<^verbatim>\<open>class Gopher\<close> that the loop reads and writes, and the trace.\<close>

record gopher =
  currentState :: XINPUT_GAMEPAD
  xboxClickStateLastIteration :: "DWORD \<rightharpoonup> bool"
  xboxClickIsDown :: "DWORD \<rightharpoonup> bool"
  xboxClickIsDownLong :: "DWORD \<rightharpoonup> bool"
  xboxClickDownLength :: "DWORD \<rightharpoonup> int"
  xboxClickIsUp :: "DWORD \<rightharpoonup> bool"
  pressedKeys :: "WORD list"
  disabled :: bool
  vibrationDisabled :: bool
  hidden :: bool
  lTriggerPrevious :: bool
  rTriggerPrevious :: bool
  xRest :: real
  yRest :: real
  speed :: real
  speed_idx :: nat
  emitted :: "event list"

text \<open>What the operating system answers during one tick.\<close>

record tick_env =
  pad :: XINPUT_GAMEPAD
  cursor_x :: int
  cursor_y :: int
  osk_iconic :: "bool option"

definition emit :: "event \<Rightarrow> gopher \<Rightarrow> gopher" where
  "emit e s = s\<lparr>emitted := emitted s @ [e]\<rparr>"

text \<open>Reading \<^verbatim>\<open>m[k]\<close> from a \<^verbatim>\<open>std::map\<close> of booleans or of integers.\<close>

definition flag :: "(DWORD \<rightharpoonup> bool) \<Rightarrow> DWORD \<Rightarrow> bool" where
  "flag m k = (case m k of None \<Rightarrow> False | Some b \<Rightarrow> b)"

definition counter :: "(DWORD \<rightharpoonup> int) \<Rightarrow> DWORD \<Rightarrow> int" where
  "counter m k = (case m k of None \<Rightarrow> 0 | Some n \<Rightarrow> n)"

subsection \<open>Sending input\<close>

definition inputKeyboard :: "WORD list \<Rightarrow> DWORD \<Rightarrow> gopher \<Rightarrow> gopher" where
  "inputKeyboard cmds flg s = emit (KeyboardInput cmds flg) s"

definition inputKeyboardDown :: "WORD list \<Rightarrow> gopher \<Rightarrow> gopher" where
  "inputKeyboardDown cmds s = inputKeyboard cmds 0 s"

definition inputKeyboardUp :: "WORD list \<Rightarrow> gopher \<Rightarrow> gopher" where
  "inputKeyboardUp cmds s = inputKeyboard cmds KEYEVENTF_KEYUP s"

definition mouseEvent :: "DWORD \<Rightarrow> DWORD \<Rightarrow> gopher \<Rightarrow> gopher" where
  "mouseEvent dwFlags mouseData s =
     emit (MouseInput dwFlags
       (if dwFlags = MOUSEEVENTF_WHEEL \<or> dwFlags = MOUSEEVENTF_XUP \<or>
           dwFlags = MOUSEEVENTF_XDOWN \<or> dwFlags = MOUSEEVENTF_HWHEEL
        then mouseData else 0)) s"

definition pulseVibrate :: "int \<Rightarrow> int \<Rightarrow> int \<Rightarrow> gopher \<Rightarrow> gopher" where
  "pulseVibrate duration l r s =
     (if \<not> vibrationDisabled s
      then emit (Vibrate 0 0) (emit (SleepMs duration) (emit (Vibrate l r) s))
      else s)"

subsection \<open>Button edges\<close>

definition xboxClickStateExists :: "DWORD \<Rightarrow> gopher \<Rightarrow> bool" where
  "xboxClickStateExists STATE s = (xboxClickStateLastIteration s STATE \<noteq> None)"

text \<open>
  \<^verbatim>\<open>setXboxClickState\<close>, statement by statement. The three \<^verbatim>\<open>if\<close> blocks run in
  sequence, each on the state the previous one left: the press block sets the
  last-iteration entry, so the long-press block also runs on the tick of the press.
\<close>

definition setXboxClickState :: "config \<Rightarrow> DWORD \<Rightarrow> gopher \<Rightarrow> gopher" where
  "setXboxClickState cfg STATE s0 =
    (let s1 = s0\<lparr>xboxClickIsDown := (xboxClickIsDown s0)(STATE \<mapsto> False)\<rparr>;
         s2 = s1\<lparr>xboxClickIsUp := (xboxClickIsUp s1)(STATE \<mapsto> False)\<rparr>;
         s3 = (if \<not> xboxClickStateExists STATE s2
               then s2\<lparr>xboxClickStateLastIteration :=
                          (xboxClickStateLastIteration s2)(STATE \<mapsto> False)\<rparr>
               else s2);
         isDown = (ucast (wButtons (currentState s3)) AND STATE = STATE);
         s4 = (if isDown \<and> \<not> flag (xboxClickStateLastIteration s3) STATE
               then s3\<lparr>xboxClickStateLastIteration :=
                          (xboxClickStateLastIteration s3)(STATE \<mapsto> True),
                        xboxClickIsDown := (xboxClickIsDown s3)(STATE \<mapsto> True),
                        xboxClickDownLength := (xboxClickDownLength s3)(STATE \<mapsto> 0),
                        xboxClickIsDownLong := (xboxClickIsDownLong s3)(STATE \<mapsto> False)\<rparr>
               else s3);
         s5 = (if isDown \<and> flag (xboxClickStateLastIteration s4) STATE
               then (let s' = s4\<lparr>xboxClickDownLength :=
                                   (xboxClickDownLength s4)
                                     (STATE \<mapsto> counter (xboxClickDownLength s4) STATE + 1)\<rparr>
                     in if counter (xboxClickDownLength s') STATE * SLEEP_AMOUNT cfg
                             > LONG_PRESS_TIME
                        then s'\<lparr>xboxClickIsDownLong :=
                                   (xboxClickIsDownLong s')(STATE \<mapsto> True)\<rparr>
                        else s')
               else s4);
         s6 = (if \<not> isDown \<and> flag (xboxClickStateLastIteration s5) STATE
               then s5\<lparr>xboxClickStateLastIteration :=
                          (xboxClickStateLastIteration s5)(STATE \<mapsto> False),
                        xboxClickIsUp := (xboxClickIsUp s5)(STATE \<mapsto> True),
                        xboxClickIsDownLong := (xboxClickIsDownLong s5)(STATE \<mapsto> False)\<rparr>
               else s5)
     in s6\<lparr>xboxClickStateLastIteration :=
              (xboxClickStateLastIteration s6)(STATE \<mapsto> isDown)\<rparr>)"

text \<open>
  One tick's observation of a button: the snapshot shows the button word \<open>w\<close>, and
  \<^verbatim>\<open>setXboxClickState\<close> runs once for the button. \<open>observeAll\<close> is a run of such ticks,
  oldest first.
\<close>

definition isPressed :: "WORD \<Rightarrow> DWORD \<Rightarrow> bool" where
  "isPressed w STATE = (ucast w AND STATE = STATE)"

definition observe :: "config \<Rightarrow> DWORD \<Rightarrow> gopher \<Rightarrow> WORD \<Rightarrow> gopher" where
  "observe cfg STATE s w =
     setXboxClickState cfg STATE (s\<lparr>currentState := (currentState s)\<lparr>wButtons := w\<rparr>\<rparr>)"

definition observeAll :: "config \<Rightarrow> DWORD \<Rightarrow> gopher \<Rightarrow> WORD list \<Rightarrow> gopher" where
  "observeAll cfg STATE s ws = foldl (observe cfg STATE) s ws"

subsection \<open>Analog sticks\<close>

text \<open>
  The conversions \<^verbatim>\<open>(int)x\<close> of a \<^verbatim>\<open>float\<close> and the implicit conversion of a \<^verbatim>\<open>float\<close>
  argument to the \<^verbatim>\<open>DWORD\<close> parameter of \<^verbatim>\<open>mouseEvent\<close>. Both discard the fractional
  part, rounding towards zero. The integer result is not bounded here; the \<^verbatim>\<open>DWORD\<close>
  keeps its low 32 bits, which is the two's-complement encoding of a negative amount.
\<close>

definition float_to_int :: "real \<Rightarrow> int" where
  "float_to_int x = (if 0 \<le> x then \<lfloor>x\<rfloor> else \<lceil>x\<rceil>)"

definition float_to_DWORD :: "real \<Rightarrow> DWORD" where
  "float_to_DWORD x = word_of_int (float_to_int x)"

definition getDelta :: "SHORT \<Rightarrow> real" where
  "getDelta t0 =
     (let t1 = (if sint t0 > 32767 then 0 else t0);
          t2 = (if sint t1 < - 32768 then 0 else t1)
      in real_of_int (sint t2))"

text \<open>
  The reading of \<^verbatim>\<open>getDelta\<close> in the words of the specification: an axis value, taken
  as an integer, that lies outside the signed 16-bit range becomes zero, and any other
  value is returned as it is.
\<close>

definition spec_getDelta :: "int \<Rightarrow> real" where
  "spec_getDelta t = (if t > 32767 \<or> t < - 32768 then 0 else real_of_int t)"

text \<open>
  \<^verbatim>\<open>getMult\<close>. Where the source divides by zero (a dead zone of exactly 32767, or
  \<^verbatim>\<open>FPS\<close> zero) or raises a negative base to a power, the value here is whatever \<open>/\<close>
  and \<open>powr\<close> give; no statement below relies on it.
\<close>

definition getMult :: "config \<Rightarrow> real \<Rightarrow> real \<Rightarrow> real \<Rightarrow> real" where
  "getMult cfg lengthsq deadzone accel =
     (let mult = (sqrt lengthsq - deadzone) / (real_of_int MAXSHORT - deadzone);
          mult' = (if accel > 0.0001 then mult powr accel else mult)
      in mult' / real_of_int (FPS cfg))"

text \<open>
  The dead-zone block of \<^verbatim>\<open>handleMouseMovement\<close>: the displacement \<open>(dx, dy)\<close> of this
  tick for the stick reading \<open>(tx, ty)\<close>.
\<close>

definition mouseDelta :: "config \<Rightarrow> gopher \<Rightarrow> SHORT \<Rightarrow> SHORT \<Rightarrow> real \<times> real" where
  "mouseDelta cfg s tx ty =
     (let lengthsq = real_of_int (sint tx * sint tx + sint ty * sint ty)
      in if lengthsq > real_of_int (DEAD_ZONE cfg * DEAD_ZONE cfg)
         then (let mult = speed s *
                        getMult cfg lengthsq (real_of_int (DEAD_ZONE cfg)) (acceleration_factor cfg)
               in (getDelta tx * mult, getDelta ty * mult))
         else (0, 0))"

definition handleMouseMovement :: "config \<Rightarrow> tick_env \<Rightarrow> gopher \<Rightarrow> gopher" where
  "handleMouseMovement cfg env s =
     (let g = currentState s;
          tx = (if SWAP_THUMBSTICKS cfg = 0 then sThumbLX g else sThumbRX g);
          ty = (if SWAP_THUMBSTICKS cfg = 0 then sThumbLY g else sThumbRY g);
          x0 = real_of_int (cursor_x env) + xRest s;
          y0 = real_of_int (cursor_y env) + yRest s;
          (dx, dy) = mouseDelta cfg s tx ty;
          x = x0 + dx;
          y = y0 - dy
      in emit (SetCursorPos (float_to_int x) (float_to_int y))
           (s\<lparr>xRest := x - real_of_int (float_to_int x),
              yRest := y - real_of_int (float_to_int y)\<rparr>))"

definition handleScrolling :: "config \<Rightarrow> gopher \<Rightarrow> gopher" where
  "handleScrolling cfg s =
     (let g = currentState s;
          tx = (if SWAP_THUMBSTICKS cfg = 0 then getDelta (sThumbRX g) else getDelta (sThumbLX g));
          ty = (if SWAP_THUMBSTICKS cfg = 0 then getDelta (sThumbRY g) else getDelta (sThumbLY g));
          magnitude = sqrt (tx * tx + ty * ty)
      in if magnitude > real_of_int (SCROLL_DEAD_ZONE cfg)
         then mouseEvent MOUSEEVENTF_WHEEL
                (float_to_DWORD
                   (ty * getMult cfg (ty * ty) (real_of_int (SCROLL_DEAD_ZONE cfg)) 0
                       * SCROLL_SPEED cfg))
                (mouseEvent MOUSEEVENTF_HWHEEL
                   (float_to_DWORD
                      (tx * getMult cfg (tx * tx) (real_of_int (SCROLL_DEAD_ZONE cfg)) 0
                          * SCROLL_SPEED cfg))
                   s)
         else s)"

subsection \<open>Triggers, keys and mouse buttons\<close>

definition handleTriggers :: "config \<Rightarrow> WORD list \<Rightarrow> WORD list \<Rightarrow> gopher \<Rightarrow> gopher" where
  "handleTriggers cfg lKey rKey s0 =
     (let lTriggerIsDown = (uint (bLeftTrigger (currentState s0)) > TRIGGER_DEAD_ZONE cfg);
          rTriggerIsDown = (uint (bRightTrigger (currentState s0)) > TRIGGER_DEAD_ZONE cfg);
          s1 = (if lTriggerIsDown \<noteq> lTriggerPrevious s0
                then (let s' = s0\<lparr>lTriggerPrevious := lTriggerIsDown\<rparr>
                      in if lTriggerIsDown then inputKeyboardDown lKey s'
                         else inputKeyboardUp lKey s')
                else s0);
          s2 = (if rTriggerIsDown \<noteq> rTriggerPrevious s1
                then (let s' = s1\<lparr>rTriggerPrevious := rTriggerIsDown\<rparr>
                      in if rTriggerIsDown then inputKeyboardDown rKey s'
                         else inputKeyboardUp rKey s')
                else s1)
      in s2)"

text \<open>
  \<^verbatim>\<open>erasePressedKey\<close>: the iterator loop over the list, which erases the first entry
  equal to the key and reports whether there was one.
\<close>

fun erase_first :: "WORD \<Rightarrow> WORD list \<Rightarrow> bool \<times> WORD list" where
  "erase_first key [] = (False, [])"
| "erase_first key (k # ks) =
     (if k = key then (True, ks)
      else (let (found, ks') = erase_first key ks in (found, k # ks')))"

definition erasePressedKey :: "WORD \<Rightarrow> gopher \<Rightarrow> bool \<times> gopher" where
  "erasePressedKey key s =
     (let (found, ks) = erase_first key (pressedKeys s) in (found, s\<lparr>pressedKeys := ks\<rparr>))"

definition mapKeyboard :: "config \<Rightarrow> DWORD \<Rightarrow> WORD list \<Rightarrow> gopher \<Rightarrow> gopher" where
  "mapKeyboard cfg STATE keys s0 =
     (let s1 = setXboxClickState cfg STATE s0;
          s2 = (if flag (xboxClickIsDown s1) STATE
                then (let s' = inputKeyboardDown keys s1
                      in s'\<lparr>pressedKeys := pressedKeys s' @ keys\<rparr>)
                else s1);
          s3 = (if flag (xboxClickIsUp s2) STATE
                then foldl (\<lambda>s key. snd (erasePressedKey key s)) (inputKeyboardUp keys s2) keys
                else s2)
      in s3)"

definition mapMouseClick :: "config \<Rightarrow> DWORD \<Rightarrow> DWORD \<Rightarrow> DWORD \<Rightarrow> gopher \<Rightarrow> gopher" where
  "mapMouseClick cfg STATE keyDown keyUp s0 =
     (let s1 = setXboxClickState cfg STATE s0;
          s2 = (if flag (xboxClickIsDown s1) STATE
                then (let s' = mouseEvent keyDown 0 s1
                      in if keyDown = MOUSEEVENTF_LEFTDOWN
                         then s'\<lparr>pressedKeys := pressedKeys s' @ [VK_LBUTTON]\<rparr>
                         else if keyDown = MOUSEEVENTF_RIGHTDOWN
                         then s'\<lparr>pressedKeys := pressedKeys s' @ [VK_RBUTTON]\<rparr>
                         else if keyDown = MOUSEEVENTF_MIDDLEDOWN
                         then s'\<lparr>pressedKeys := pressedKeys s' @ [VK_MBUTTON]\<rparr>
                         else s')
                else s1);
          s3 = (if flag (xboxClickIsUp s2) STATE
                then (let s' = mouseEvent keyUp 0 s2
                      in if keyUp = MOUSEEVENTF_LEFTUP
                         then snd (erasePressedKey VK_LBUTTON s')
                         else if keyUp = MOUSEEVENTF_RIGHTUP
                         then snd (erasePressedKey VK_RBUTTON s')
                         else if keyUp = MOUSEEVENTF_MIDDLEUP
                         then snd (erasePressedKey VK_MBUTTON s')
                         else s')
                else s2)
      in s3)"

subsection \<open>Command buttons\<close>

text \<open>
  The \<^verbatim>\<open>while\<close> loop of \<^verbatim>\<open>handleDisableButton\<close>: it takes the front of
  \<^verbatim>\<open>_pressedKeys\<close>, sends a mouse-up for a mouse button or collects the code in
  \<^verbatim>\<open>keyboardEvents\<close>, and pops the front, until the list is empty. The first argument is
  the list still to be drained.
\<close>

fun releasePressedKeys :: "WORD list \<Rightarrow> WORD list \<Rightarrow> gopher \<Rightarrow> WORD list \<times> gopher" where
  "releasePressedKeys [] keyboardEvents s = (keyboardEvents, s\<lparr>pressedKeys := []\<rparr>)"
| "releasePressedKeys (keyEvent # rest) keyboardEvents s =
     (if keyEvent = VK_LBUTTON
      then releasePressedKeys rest keyboardEvents
             ((mouseEvent MOUSEEVENTF_LEFTUP 0 s)\<lparr>pressedKeys := rest\<rparr>)
      else if keyEvent = VK_RBUTTON
      then releasePressedKeys rest keyboardEvents
             ((mouseEvent MOUSEEVENTF_RIGHTUP 0 s)\<lparr>pressedKeys := rest\<rparr>)
      else if keyEvent = VK_MBUTTON
      then releasePressedKeys rest keyboardEvents
             ((mouseEvent MOUSEEVENTF_MIDDLEUP 0 s)\<lparr>pressedKeys := rest\<rparr>)
      else releasePressedKeys rest (keyboardEvents @ [keyEvent]) (s\<lparr>pressedKeys := rest\<rparr>))"

definition handleDisableButton :: "config \<Rightarrow> gopher \<Rightarrow> gopher" where
  "handleDisableButton cfg s0 =
     (let s1 = setXboxClickState cfg (CONFIG_DISABLE cfg) s0
      in if flag (xboxClickIsDown s1) (CONFIG_DISABLE cfg)
         then (let s2 = s1\<lparr>disabled := \<not> disabled s1\<rparr>
               in if disabled s2
                  then (let (keyboardEvents, s3) = releasePressedKeys (pressedKeys s2) [] s2;
                            s4 = (if keyboardEvents \<noteq> [] then inputKeyboardUp keyboardEvents s3
                                  else s3)
                        in pulseVibrate 400 10000 10000 s4)
                  else pulseVibrate 400 65000 65000 s2)
         else s1)"

definition handleVibrationButton :: "config \<Rightarrow> gopher \<Rightarrow> gopher" where
  "handleVibrationButton cfg s0 =
     (let s1 = setXboxClickState cfg (CONFIG_DISABLE_VIBRATION cfg) s0
      in if flag (xboxClickIsDown s1) (CONFIG_DISABLE_VIBRATION cfg)
         then emit (SleepMs 1000) (s1\<lparr>vibrationDisabled := \<not> vibrationDisabled s1\<rparr>)
         else s1)"

definition setWindowVisibility :: "gopher \<Rightarrow> gopher" where
  "setWindowVisibility s = emit (ShowWindow ConsoleWindow (if hidden s then SW_HIDE else SW_SHOW)) s"

definition toggleWindowVisibility :: "gopher \<Rightarrow> gopher" where
  "toggleWindowVisibility s = setWindowVisibility (s\<lparr>hidden := \<not> hidden s\<rparr>)"

subsection \<open>The loop\<close>

text \<open>
  The body of \<^verbatim>\<open>Gopher::loop\<close> after the disable check, block by block in the order of
  the source. \<^verbatim>\<open>speed_idx\<close> is an \<^verbatim>\<open>unsigned int\<close> below the number of speeds, so its
  increment does not wrap; \<^verbatim>\<open>speeds[speed_idx]\<close> is read in range whenever there is a
  speed at all, which \<^verbatim>\<open>loadConfigFile\<close> sees to.
\<close>

definition loop_mouseClicks :: "config \<Rightarrow> gopher \<Rightarrow> gopher" where
  "loop_mouseClicks cfg s0 =
     (let s1 = (if CONFIG_MOUSE_LEFT cfg \<noteq> 0
                then mapMouseClick cfg (CONFIG_MOUSE_LEFT cfg) MOUSEEVENTF_LEFTDOWN MOUSEEVENTF_LEFTUP s0
                else s0);
          s2 = (if CONFIG_MOUSE_RIGHT cfg \<noteq> 0
                then mapMouseClick cfg (CONFIG_MOUSE_RIGHT cfg) MOUSEEVENTF_RIGHTDOWN MOUSEEVENTF_RIGHTUP s1
                else s1);
          s3 = (if CONFIG_MOUSE_MIDDLE cfg \<noteq> 0
                then mapMouseClick cfg (CONFIG_MOUSE_MIDDLE cfg) MOUSEEVENTF_MIDDLEDOWN MOUSEEVENTF_MIDDLEUP s2
                else s2)
      in s3)"

definition loop_hide :: "config \<Rightarrow> gopher \<Rightarrow> gopher" where
  "loop_hide cfg s0 =
     (if CONFIG_HIDE cfg \<noteq> 0
      then (let s1 = setXboxClickState cfg (CONFIG_HIDE cfg) s0
            in if flag (xboxClickIsDown s1) (CONFIG_HIDE cfg) then toggleWindowVisibility s1 else s1)
      else s0)"

definition loop_osk :: "config \<Rightarrow> tick_env \<Rightarrow> gopher \<Rightarrow> gopher" where
  "loop_osk cfg env s0 =
     (if CONFIG_OSK cfg \<noteq> 0
      then (let s1 = setXboxClickState cfg (CONFIG_OSK cfg) s0
            in if flag (xboxClickIsDown s1) (CONFIG_OSK cfg)
               then (case osk_iconic env of
                       None \<Rightarrow> s1
                     | Some True \<Rightarrow> emit (ShowWindow OskWindow SW_RESTORE) s1
                     | Some False \<Rightarrow> emit (ShowWindow OskWindow SW_MINIMIZE) s1)
               else s1)
      else s0)"

definition changeSpeed :: "config \<Rightarrow> gopher \<Rightarrow> gopher" where
  "changeSpeed cfg s0 =
     (let s1 = s0\<lparr>speed_idx := speed_idx s0 + 1\<rparr>;
          s2 = (if speed_idx s1 \<ge> length (speeds cfg) then s1\<lparr>speed_idx := 0\<rparr> else s1);
          s3 = s2\<lparr>speed := speeds cfg ! speed_idx s2\<rparr>
      in pulseVibrate 450 65000 65000 s3)"

definition loop_speedChange :: "config \<Rightarrow> gopher \<Rightarrow> gopher" where
  "loop_speedChange cfg s0 =
     (let s1 = setXboxClickState cfg (CONFIG_SPEED_CHANGE cfg) s0
      in if flag (xboxClickIsDown s1) (CONFIG_SPEED_CHANGE cfg) then changeSpeed cfg s1 else s1)"

definition mapKeyboardIfBound :: "config \<Rightarrow> DWORD \<Rightarrow> WORD list \<Rightarrow> gopher \<Rightarrow> gopher" where
  "mapKeyboardIfBound cfg STATE keys s = (if keys \<noteq> [] then mapKeyboard cfg STATE keys s else s)"

definition loop_controllerKeys :: "config \<Rightarrow> gopher \<Rightarrow> gopher" where
  "loop_controllerKeys cfg s0 =
     (let s1 = handleTriggers cfg (GAMEPAD_TRIGGER_LEFT cfg) (GAMEPAD_TRIGGER_RIGHT cfg) s0;
          s2 = mapKeyboardIfBound cfg XINPUT_GAMEPAD_DPAD_UP (GAMEPAD_DPAD_UP cfg) s1;
          s3 = mapKeyboardIfBound cfg XINPUT_GAMEPAD_DPAD_DOWN (GAMEPAD_DPAD_DOWN cfg) s2;
          s4 = mapKeyboardIfBound cfg XINPUT_GAMEPAD_DPAD_LEFT (GAMEPAD_DPAD_LEFT cfg) s3;
          s5 = mapKeyboardIfBound cfg XINPUT_GAMEPAD_DPAD_RIGHT (GAMEPAD_DPAD_RIGHT cfg) s4;
          s6 = mapKeyboardIfBound cfg XINPUT_GAMEPAD_START (GAMEPAD_START cfg) s5;
          s7 = mapKeyboardIfBound cfg XINPUT_GAMEPAD_BACK (GAMEPAD_BACK cfg) s6;
          s8 = mapKeyboardIfBound cfg XINPUT_GAMEPAD_LEFT_THUMB (GAMEPAD_LEFT_THUMB cfg) s7;
          s9 = mapKeyboardIfBound cfg XINPUT_GAMEPAD_RIGHT_THUMB (GAMEPAD_RIGHT_THUMB cfg) s8;
          s10 = mapKeyboardIfBound cfg XINPUT_GAMEPAD_LEFT_SHOULDER (GAMEPAD_LEFT_SHOULDER cfg) s9;
          s11 = mapKeyboardIfBound cfg XINPUT_GAMEPAD_RIGHT_SHOULDER (GAMEPAD_RIGHT_SHOULDER cfg) s10;
          s12 = mapKeyboardIfBound cfg XINPUT_GAMEPAD_A (GAMEPAD_A cfg) s11;
          s13 = mapKeyboardIfBound cfg XINPUT_GAMEPAD_B (GAMEPAD_B cfg) s12;
          s14 = mapKeyboardIfBound cfg XINPUT_GAMEPAD_X (GAMEPAD_X cfg) s13;
          s15 = mapKeyboardIfBound cfg XINPUT_GAMEPAD_Y (GAMEPAD_Y cfg) s14
      in s15)"

definition loop :: "config \<Rightarrow> tick_env \<Rightarrow> gopher \<Rightarrow> gopher" where
  "loop cfg env s0 =
     (let s1 = emit (SleepMs (SLEEP_AMOUNT cfg)) s0;
          s2 = s1\<lparr>currentState := pad env\<rparr>;
          s3 = handleDisableButton cfg s2
      in if disabled s3 then s3
         else (let s4 = handleVibrationButton cfg s3;
                   s5 = handleMouseMovement cfg env s4;
                   s6 = handleScrolling cfg s5;
                   s7 = loop_mouseClicks cfg s6;
                   s8 = loop_hide cfg s7;
                   s9 = loop_osk cfg env s8;
                   s10 = loop_speedChange cfg s9;
                   s11 = loop_controllerKeys cfg s10
               in s11))"

subsection \<open>States and configurations for the examples\<close>

text \<open>
  Modelled from the spec: the members' initialisers of the class declaration are not among
  the sources. Before the first tick no button has been observed, no key is held, the
  mapper is enabled, the remainders are zero and the first speed of the table is active.
\<close>

definition startState :: "config \<Rightarrow> gopher" where
  "startState cfg =
     \<lparr>currentState = \<lparr>wButtons = 0, bLeftTrigger = 0, bRightTrigger = 0,
                       sThumbLX = 0, sThumbLY = 0, sThumbRX = 0, sThumbRY = 0\<rparr>,
      xboxClickStateLastIteration = Map.empty,
      xboxClickIsDown = Map.empty,
      xboxClickIsDownLong = Map.empty,
      xboxClickDownLength = Map.empty,
      xboxClickIsUp = Map.empty,
      pressedKeys = [],
      disabled = False,
      vibrationDisabled = False,
      hidden = False,
      lTriggerPrevious = False,
      rTriggerPrevious = False,
      xRest = 0,
      yRest = 0,
      speed = speeds cfg ! 0,
      speed_idx = 0,
      emitted = []\<rparr>"

text \<open>
  A configuration for the examples: the fallback values of \<^verbatim>\<open>loadConfigFile\<close> (dead zones
  6000 and 5000, scroll speed 0.1, the four built-in speeds), 150 ticks per second, the
  left mouse button on A, the right one on X, the disable command on START with BACK, the
  vibration toggle on BACK with the pad up, the speed change on both shoulders, the arrow keys on the directional pad, and the space bar on the left trigger.
\<close>

definition exampleConfig :: config where
  "exampleConfig =
     \<lparr>CONFIG_MOUSE_LEFT = 0x1000,
      CONFIG_MOUSE_RIGHT = 0x4000,
      CONFIG_MOUSE_MIDDLE = 0,
      CONFIG_HIDE = 0,
      CONFIG_DISABLE = 0x0030,
      CONFIG_DISABLE_VIBRATION = 0x0021,
      CONFIG_SPEED_CHANGE = 0x0300,
      CONFIG_OSK = 0,
      GAMEPAD_DPAD_UP = [0x26],
      GAMEPAD_DPAD_DOWN = [0x28],
      GAMEPAD_DPAD_LEFT = [0x25],
      GAMEPAD_DPAD_RIGHT = [0x27],
      GAMEPAD_START = [],
      GAMEPAD_BACK = [],
      GAMEPAD_LEFT_THUMB = [],
      GAMEPAD_RIGHT_THUMB = [],
      GAMEPAD_LEFT_SHOULDER = [],
      GAMEPAD_RIGHT_SHOULDER = [],
      GAMEPAD_A = [],
      GAMEPAD_B = [0x11, 0x43],
      GAMEPAD_X = [],
      GAMEPAD_Y = [],
      GAMEPAD_TRIGGER_LEFT = [0x20],
      GAMEPAD_TRIGGER_RIGHT = [],
      acceleration_factor = 0,
      DEAD_ZONE = 6000,
      SCROLL_DEAD_ZONE = 5000,
      SCROLL_SPEED = 1 / 10,
      speeds = [5 / 1000, 15 / 1000, 25 / 1000, 4 / 1000],
      speed_names = [''ULTRALOW'', ''LOW'', ''MED'', ''HIGH''],
      SWAP_THUMBSTICKS = 0,
      TRIGGER_DEAD_ZONE = 0,
      FPS = 150,
      SLEEP_AMOUNT = 6\<rparr>"

subsection \<open>Notions used in the statements\<close>

text \<open>
  The effect of \<^verbatim>\<open>setXboxClickState\<close> in closed form, for a button that the snapshot shows
  pressed (\<open>p\<close>) or not; \<open>setXboxClickState_eq\<close> below proves it equal to the function.
\<close>

definition clickUpdate :: "config \<Rightarrow> DWORD \<Rightarrow> bool \<Rightarrow> gopher \<Rightarrow> gopher" where
  "clickUpdate cfg b p s =
    (let was = flag (xboxClickStateLastIteration s) b;
         n = (if was then counter (xboxClickDownLength s) b else 0) + 1
     in s\<lparr>xboxClickStateLastIteration := (xboxClickStateLastIteration s)(b \<mapsto> p),
          xboxClickIsDown := (xboxClickIsDown s)(b \<mapsto> p \<and> \<not> was),
          xboxClickIsUp := (xboxClickIsUp s)(b \<mapsto> \<not> p \<and> was),
          xboxClickDownLength :=
            (if p then (xboxClickDownLength s)(b \<mapsto> n) else xboxClickDownLength s),
          xboxClickIsDownLong :=
            (if p then
               (if n * SLEEP_AMOUNT cfg > 200 then (xboxClickIsDownLong s)(b \<mapsto> True)
                else if was then xboxClickIsDownLong s
                else (xboxClickIsDownLong s)(b \<mapsto> False))
             else if was then (xboxClickIsDownLong s)(b \<mapsto> False)
             else xboxClickIsDownLong s)\<rparr>)"

text \<open>
  The press edge of a button \<open>b\<close>: the snapshot word \<open>w\<close> shows it down and the previous
  observation did not (or there was none).
\<close>

definition edge :: "DWORD \<Rightarrow> WORD \<Rightarrow> gopher \<Rightarrow> bool" where
  "edge b w s = (isPressed w b \<and> \<not> flag (xboxClickStateLastIteration s) b)"

text \<open>
  The codes that \<^verbatim>\<open>handleDisableButton\<close> treats as mouse buttons, the mouse-up event of
  each, and the calls that release a list of held codes: one mouse-up per mouse-button
  entry, in order, then one batched key-up call for the other entries, if there are any.
\<close>

definition isMouseButtonCode :: "WORD \<Rightarrow> bool" where
  "isMouseButtonCode k = (k = VK_LBUTTON \<or> k = VK_RBUTTON \<or> k = VK_MBUTTON)"

definition mouseUpFor :: "WORD \<Rightarrow> DWORD" where
  "mouseUpFor k =
     (if k = VK_LBUTTON then MOUSEEVENTF_LEFTUP
      else if k = VK_RBUTTON then MOUSEEVENTF_RIGHTUP
      else MOUSEEVENTF_MIDDLEUP)"

definition releaseTrace :: "WORD list \<Rightarrow> event list" where
  "releaseTrace ks =
     map (\<lambda>k. MouseInput (mouseUpFor k) 0) (filter isMouseButtonCode ks) @
     (if filter (\<lambda>k. \<not> isMouseButtonCode k) ks = [] then []
      else [KeyboardInput (filter (\<lambda>k. \<not> isMouseButtonCode k) ks) KEYEVENTF_KEYUP])"




text \<open>
  The stick that \<^verbatim>\<open>handleScrolling\<close> reads, after \<^verbatim>\<open>getDelta\<close>, and the amount it
  computes for an axis value \<open>t\<close> before the conversion to \<^verbatim>\<open>DWORD\<close>.
\<close>

definition scrollStick :: "config \<Rightarrow> gopher \<Rightarrow> real \<times> real" where
  "scrollStick cfg s =
     (if SWAP_THUMBSTICKS cfg = 0
      then (getDelta (sThumbRX (currentState s)), getDelta (sThumbRY (currentState s)))
      else (getDelta (sThumbLX (currentState s)), getDelta (sThumbLY (currentState s))))"


text \<open>
  Down and up events in the trace, per key code. A keyboard input with flag 0 is a down event
  for each code it carries, one with \<^verbatim>\<open>KEYEVENTF_KEYUP\<close> an up event; a mouse button
  event counts for the virtual key code of its button. \<open>unmatchedDowns c evs\<close> is the
  number of down events for \<open>c\<close> in \<open>evs\<close> that no later up event has matched.
\<close>

definition eventDowns :: "WORD \<Rightarrow> event \<Rightarrow> nat" where
  "eventDowns c e =
     (case e of
        KeyboardInput cmds flg \<Rightarrow> (if flg = 0 then count_list cmds c else 0)
      | MouseInput f d \<Rightarrow>
          (if (f = MOUSEEVENTF_LEFTDOWN \<and> c = VK_LBUTTON) \<or>
              (f = MOUSEEVENTF_RIGHTDOWN \<and> c = VK_RBUTTON) \<or>
              (f = MOUSEEVENTF_MIDDLEDOWN \<and> c = VK_MBUTTON) then 1 else 0)
      | _ \<Rightarrow> 0)"

definition eventUps :: "WORD \<Rightarrow> event \<Rightarrow> nat" where
  "eventUps c e =
     (case e of
        KeyboardInput cmds flg \<Rightarrow> (if flg = KEYEVENTF_KEYUP then count_list cmds c else 0)
      | MouseInput f d \<Rightarrow>
          (if (f = MOUSEEVENTF_LEFTUP \<and> c = VK_LBUTTON) \<or>
              (f = MOUSEEVENTF_RIGHTUP \<and> c = VK_RBUTTON) \<or>
              (f = MOUSEEVENTF_MIDDLEUP \<and> c = VK_MBUTTON) then 1 else 0)
      | _ \<Rightarrow> 0)"

definition unmatchedDowns :: "WORD \<Rightarrow> event list \<Rightarrow> nat" where
  "unmatchedDowns c evs = foldl (\<lambda>n e. n + eventDowns c e - eventUps c e) 0 evs"

text \<open>
  The invariant of \<^verbatim>\<open>_pressedKeys\<close>, with multiplicity: every code is in the list as
  often as it has unmatched down events in the trace.
\<close>

definition tracked :: "gopher \<Rightarrow> bool" where
  "tracked s = (\<forall>c. count_list (pressedKeys s) c = unmatchedDowns c (emitted s))"

subsection \<open>Ticks and states for the examples\<close>

text \<open>
  \<open>padTick w lt\<close>: the sticks are centred, the cursor is at (100, 100), the button word
  is \<open>w\<close> and the left trigger reads \<open>lt\<close>. \<open>busyTick w\<close>: both sticks are pushed and the
  left trigger is pulled. \<open>stickAt cfg x y\<close>: the start state with both sticks at
  \<open>(x, y)\<close>.
\<close>

definition padTick :: "WORD \<Rightarrow> BYTE \<Rightarrow> tick_env" where
  "padTick w lt =
     \<lparr>pad = \<lparr>wButtons = w, bLeftTrigger = lt, bRightTrigger = 0,
              sThumbLX = 0, sThumbLY = 0, sThumbRX = 0, sThumbRY = 0\<rparr>,
      cursor_x = 100, cursor_y = 100, osk_iconic = None\<rparr>"

definition busyTick :: "WORD \<Rightarrow> tick_env" where
  "busyTick w =
     \<lparr>pad = \<lparr>wButtons = w, bLeftTrigger = 255, bRightTrigger = 0,
              sThumbLX = 20000, sThumbLY = 0, sThumbRX = 0, sThumbRY = 20000\<rparr>,
      cursor_x = 100, cursor_y = 100, osk_iconic = None\<rparr>"


text \<open>
  States reached from the start by one tick: with A and B held (the left mouse button and
  Ctrl+C are down), with START and BACK held (the mapper is disabled), and with the left
  trigger pulled (the space bar is down).
\<close>

definition heldState :: gopher where
  "heldState = loop exampleConfig (padTick 0x3000 0) (startState exampleConfig)"

definition disabledState :: gopher where
  "disabledState = loop exampleConfig (padTick 0x0030 0) (startState exampleConfig)"

definition triggerHeldState :: gopher where
  "triggerHeldState = loop exampleConfig (padTick 0 255) (startState exampleConfig)"

section \<open>Button edge tracking\<close>

lemmas vk_defs = VK_LBUTTON_def VK_RBUTTON_def VK_MBUTTON_def

lemma setXboxClickState_eq:
  "setXboxClickState cfg b s = clickUpdate cfg b (isPressed (wButtons (currentState s)) b) s"
proof (cases "isPressed (wButtons (currentState s)) b")
  case p: True
  show ?thesis
  proof (cases "xboxClickStateLastIteration s b")
    case None
    with p show ?thesis
      by (simp add: setXboxClickState_def clickUpdate_def Let_def xboxClickStateExists_def
          flag_def counter_def isPressed_def LONG_PRESS_TIME_def)
  next
    case (Some l)
    with p show ?thesis
      by (cases l) (simp_all add: setXboxClickState_def clickUpdate_def Let_def
          xboxClickStateExists_def flag_def counter_def isPressed_def LONG_PRESS_TIME_def)
  qed
next
  case p: False
  show ?thesis
  proof (cases "xboxClickStateLastIteration s b")
    case None
    with p show ?thesis
      by (simp add: setXboxClickState_def clickUpdate_def Let_def xboxClickStateExists_def
          flag_def counter_def isPressed_def LONG_PRESS_TIME_def)
  next
    case (Some l)
    with p show ?thesis
      by (cases l) (simp_all add: setXboxClickState_def clickUpdate_def Let_def
          xboxClickStateExists_def flag_def counter_def isPressed_def LONG_PRESS_TIME_def)
  qed
qed

lemma setXboxClickState_frame:
  "disabled (setXboxClickState cfg b s) = disabled s"
  "pressedKeys (setXboxClickState cfg b s) = pressedKeys s"
  "emitted (setXboxClickState cfg b s) = emitted s"
  "vibrationDisabled (setXboxClickState cfg b s) = vibrationDisabled s"
  "currentState (setXboxClickState cfg b s) = currentState s"
  "hidden (setXboxClickState cfg b s) = hidden s"
  "lTriggerPrevious (setXboxClickState cfg b s) = lTriggerPrevious s"
  "rTriggerPrevious (setXboxClickState cfg b s) = rTriggerPrevious s"
  "xRest (setXboxClickState cfg b s) = xRest s"
  "yRest (setXboxClickState cfg b s) = yRest s"
  "speed (setXboxClickState cfg b s) = speed s"
  "speed_idx (setXboxClickState cfg b s) = speed_idx s"
  by (simp_all add: setXboxClickState_eq clickUpdate_def Let_def)

lemma setXboxClickState_flags:
  "flag (xboxClickIsDown (setXboxClickState cfg b s)) b = edge b (wButtons (currentState s)) s"
  "flag (xboxClickIsUp (setXboxClickState cfg b s)) b =
     (\<not> isPressed (wButtons (currentState s)) b \<and> flag (xboxClickStateLastIteration s) b)"
  "flag (xboxClickStateLastIteration (setXboxClickState cfg b s)) b =
     isPressed (wButtons (currentState s)) b"
  by (simp_all add: setXboxClickState_eq clickUpdate_def Let_def flag_def edge_def)

lemma setXboxClickState_other:
  "b' \<noteq> b \<Longrightarrow> xboxClickStateLastIteration (setXboxClickState cfg b s) b' =
     xboxClickStateLastIteration s b'"
  "b' \<noteq> b \<Longrightarrow> xboxClickIsDown (setXboxClickState cfg b s) b' = xboxClickIsDown s b'"
  "b' \<noteq> b \<Longrightarrow> xboxClickIsUp (setXboxClickState cfg b s) b' = xboxClickIsUp s b'"
  "b' \<noteq> b \<Longrightarrow> xboxClickIsDownLong (setXboxClickState cfg b s) b' = xboxClickIsDownLong s b'"
  "b' \<noteq> b \<Longrightarrow> xboxClickDownLength (setXboxClickState cfg b s) b' = xboxClickDownLength s b'"
  by (simp_all add: setXboxClickState_eq clickUpdate_def Let_def)

lemma observe_isDown:
  "xboxClickIsDown (observe cfg b s w) b =
     Some (isPressed w b \<and> \<not> flag (xboxClickStateLastIteration s) b)"
  by (simp add: observe_def setXboxClickState_eq clickUpdate_def Let_def)

lemma observe_isUp:
  "xboxClickIsUp (observe cfg b s w) b =
     Some (\<not> isPressed w b \<and> flag (xboxClickStateLastIteration s) b)"
  by (simp add: observe_def setXboxClickState_eq clickUpdate_def Let_def)

lemma observe_flag_last: "flag (xboxClickStateLastIteration (observe cfg b s w)) b = isPressed w b"
  by (simp add: observe_def setXboxClickState_eq clickUpdate_def Let_def flag_def)

text \<open>
  C4. For every logical button \<open>b\<close>, one observation per tick moves the edge flags through
  the cycle Up, JustDown, Down, JustUp. \<open>flag (xboxClickStateLastIteration s) b\<close> says that
  the button was down on the previous tick; a button never observed before has no entry
  and counts as up. Observed down after up: \<^verbatim>\<open>isDown\<close> is true and \<^verbatim>\<open>isUp\<close> false, and
  \<^verbatim>\<open>isDown\<close> is false again on the next tick whatever that tick shows. Observed down after
  down: \<^verbatim>\<open>isDown\<close> is false. Observed up after down: \<^verbatim>\<open>isUp\<close> is true, for that tick
  only. Observed up after up: neither flag.
\<close>

theorem edge_flags_cycle:
  "(xboxClickStateLastIteration s b = None \<longrightarrow> \<not> flag (xboxClickStateLastIteration s) b) \<and>
   (\<not> flag (xboxClickStateLastIteration s) b \<and> isPressed w b \<longrightarrow>
      xboxClickIsDown (observe cfg b s w) b = Some True \<and>
      xboxClickIsUp (observe cfg b s w) b = Some False \<and>
      flag (xboxClickStateLastIteration (observe cfg b s w)) b \<and>
      (\<forall>w'. xboxClickIsDown (observe cfg b (observe cfg b s w) w') b = Some False)) \<and>
   (flag (xboxClickStateLastIteration s) b \<and> isPressed w b \<longrightarrow>
      xboxClickIsDown (observe cfg b s w) b = Some False \<and>
      xboxClickIsUp (observe cfg b s w) b = Some False \<and>
      flag (xboxClickStateLastIteration (observe cfg b s w)) b) \<and>
   (flag (xboxClickStateLastIteration s) b \<and> \<not> isPressed w b \<longrightarrow>
      xboxClickIsUp (observe cfg b s w) b = Some True \<and>
      xboxClickIsDown (observe cfg b s w) b = Some False \<and>
      \<not> flag (xboxClickStateLastIteration (observe cfg b s w)) b \<and>
      (\<forall>w'. xboxClickIsUp (observe cfg b (observe cfg b s w) w') b = Some False)) \<and>
   (\<not> flag (xboxClickStateLastIteration s) b \<and> \<not> isPressed w b \<longrightarrow>
      xboxClickIsDown (observe cfg b s w) b = Some False \<and>
      xboxClickIsUp (observe cfg b s w) b = Some False \<and>
      \<not> flag (xboxClickStateLastIteration (observe cfg b s w)) b)"
  by (simp add: observe_isDown observe_isUp observe_flag_last) (simp add: flag_def)

theorem edge_flags_cycle_witness:
  "xboxClickStateLastIteration (startState exampleConfig) XINPUT_GAMEPAD_A = None \<and>
   isPressed 0x1000 XINPUT_GAMEPAD_A \<and> \<not> isPressed 0x0100 XINPUT_GAMEPAD_A \<and>
   xboxClickIsDown (observeAll exampleConfig XINPUT_GAMEPAD_A (startState exampleConfig) [0x1000])
     XINPUT_GAMEPAD_A = Some True \<and>
   xboxClickIsUp (observeAll exampleConfig XINPUT_GAMEPAD_A (startState exampleConfig) [0x1000])
     XINPUT_GAMEPAD_A = Some False \<and>
   xboxClickIsDown (observeAll exampleConfig XINPUT_GAMEPAD_A (startState exampleConfig) [0x1000, 0x1000])
     XINPUT_GAMEPAD_A = Some False \<and>
   xboxClickIsUp (observeAll exampleConfig XINPUT_GAMEPAD_A (startState exampleConfig) [0x1000, 0x1000, 0x0100])
     XINPUT_GAMEPAD_A = Some True \<and>
   xboxClickIsUp (observeAll exampleConfig XINPUT_GAMEPAD_A (startState exampleConfig) [0x1000, 0x1000, 0x0100, 0x0100])
     XINPUT_GAMEPAD_A = Some False"
proof -
  let ?c = exampleConfig and ?b = XINPUT_GAMEPAD_A
  let ?s0 = "startState ?c"
  let ?s1 = "observe ?c ?b ?s0 0x1000"
  let ?s2 = "observe ?c ?b ?s1 0x1000"
  let ?s3 = "observe ?c ?b ?s2 0x0100"
  have unseen: "xboxClickStateLastIteration ?s0 ?b = None"
    by (simp add: startState_def)
  have dn: "isPressed 0x1000 ?b" and up: "\<not> isPressed 0x0100 ?b"
    by (simp_all add: isPressed_def XINPUT_GAMEPAD_A_def)
  have t1: "xboxClickIsDown ?s1 ?b = Some True \<and> xboxClickIsUp ?s1 ?b = Some False \<and>
            flag (xboxClickStateLastIteration ?s1) ?b"
    using edge_flags_cycle [of ?s0 ?b "0x1000" ?c] unseen dn by simp
  have t2: "xboxClickIsDown ?s2 ?b = Some False \<and> flag (xboxClickStateLastIteration ?s2) ?b"
    using edge_flags_cycle [of ?s1 ?b "0x1000" ?c] t1 dn by simp
  have t3: "xboxClickIsUp ?s3 ?b = Some True \<and>
            xboxClickIsUp (observe ?c ?b ?s3 0x0100) ?b = Some False"
    using edge_flags_cycle [of ?s2 ?b "0x0100" ?c] t2 up by simp
  show ?thesis
    using unseen dn up t1 t2 t3 by (simp add: observeAll_def)
qed


section \<open>Long press\<close>

lemma observe_press_length:
  "isPressed w b \<Longrightarrow> \<not> flag (xboxClickStateLastIteration s) b \<Longrightarrow>
   xboxClickDownLength (observe cfg b s w) b = Some 1"
  by (simp add: observe_def setXboxClickState_eq clickUpdate_def Let_def flag_def counter_def)

lemma observe_press_long:
  "isPressed w b \<Longrightarrow> \<not> flag (xboxClickStateLastIteration s) b \<Longrightarrow>
   xboxClickIsDownLong (observe cfg b s w) b = Some (1 * SLEEP_AMOUNT cfg > 200)"
  by (simp add: observe_def setXboxClickState_eq clickUpdate_def Let_def flag_def counter_def)

lemma observe_hold_length:
  "isPressed w b \<Longrightarrow> flag (xboxClickStateLastIteration s) b \<Longrightarrow>
   xboxClickDownLength (observe cfg b s w) b = Some (counter (xboxClickDownLength s) b + 1)"
  by (simp add: observe_def setXboxClickState_eq clickUpdate_def Let_def flag_def counter_def)

lemma observe_hold_long:
  "isPressed w b \<Longrightarrow> flag (xboxClickStateLastIteration s) b \<Longrightarrow>
   xboxClickIsDownLong s b = Some l \<Longrightarrow>
   xboxClickIsDownLong (observe cfg b s w) b =
     Some (l \<or> (counter (xboxClickDownLength s) b + 1) * SLEEP_AMOUNT cfg > 200)"
  by (simp add: observe_def setXboxClickState_eq clickUpdate_def Let_def flag_def counter_def)

lemma observe_release_long:
  "\<not> isPressed w b \<Longrightarrow> flag (xboxClickStateLastIteration s) b \<Longrightarrow>
   xboxClickIsDownLong (observe cfg b s w) b = Some False"
  by (simp add: observe_def setXboxClickState_eq clickUpdate_def Let_def flag_def counter_def)

text \<open>The comparison, once true, stays true as the count grows: the flag is never lost.\<close>

lemma threshold_mono:
  fixes S :: int
  assumes "n \<ge> 1"
  shows "(n * S > 200 \<or> (n + 1) * S > 200) = ((n + 1) * S > 200)"
proof (cases "S \<le> 0")
  case True
  then have "n * S \<le> 0" using assms by (simp add: mult_nonneg_nonpos)
  then show ?thesis by auto
next
  case False
  then have "(n + 1) * S > n * S" by (simp add: algebra_simps)
  then show ?thesis by auto
qed

lemma held_invariant:
  assumes up: "\<not> flag (xboxClickStateLastIteration s) b"
      and ne: "ws \<noteq> []"
      and dn: "\<forall>w\<in>set ws. isPressed w b"
  shows "flag (xboxClickStateLastIteration (observeAll cfg b s ws)) b \<and>
         xboxClickDownLength (observeAll cfg b s ws) b = Some (int (length ws)) \<and>
         xboxClickIsDownLong (observeAll cfg b s ws) b =
           Some (int (length ws) * SLEEP_AMOUNT cfg > 200)"
  using ne dn
proof (induction ws rule: rev_induct)
  case Nil
  then show ?case by simp
next
  case (snoc w ws)
  have w: "isPressed w b" using snoc.prems by simp
  show ?case
  proof (cases "ws = []")
    case True
    then show ?thesis
      using up w
      by (simp add: observeAll_def observe_flag_last observe_press_length observe_press_long)
  next
    case False
    then have ih: "flag (xboxClickStateLastIteration (observeAll cfg b s ws)) b"
      "xboxClickDownLength (observeAll cfg b s ws) b = Some (int (length ws))"
      "xboxClickIsDownLong (observeAll cfg b s ws) b =
           Some (int (length ws) * SLEEP_AMOUNT cfg > 200)"
      using snoc by simp_all
    have n1: "int (length ws) \<ge> 1" using False by (cases ws) simp_all
    have step: "observeAll cfg b s (ws @ [w]) = observe cfg b (observeAll cfg b s ws) w"
      by (simp add: observeAll_def)
    have cnt: "counter (xboxClickDownLength (observeAll cfg b s ws)) b = int (length ws)"
      by (simp add: counter_def ih(2))
    show ?thesis
      unfolding step
      using threshold_mono[OF n1, of "SLEEP_AMOUNT cfg"]
      by (simp add: observe_flag_last w observe_hold_length[OF w ih(1)]
          observe_hold_long[OF w ih(1) ih(3)] cnt add.commute)
  qed
qed

text \<open>
  C5. A button \<open>b\<close> that was up (or never seen) is then observed down on every tick of the
  run \<open>ws\<close>, one observation per tick. After the run the held-tick count is the number of
  ticks, the press tick included, and the long-press flag is true exactly when that count
  times the tick interval \<^verbatim>\<open>SLEEP_AMOUNT\<close> is strictly greater than 200 ms; so at exactly
  200 ms the button is not yet long. The tick that observes the release clears the flag.
\<close>

theorem long_press_threshold:
  assumes "\<not> flag (xboxClickStateLastIteration s) b"
      and "ws \<noteq> []"
      and "\<forall>w\<in>set ws. isPressed w b"
  shows "xboxClickDownLength (observeAll cfg b s ws) b = Some (int (length ws)) \<and>
         xboxClickIsDownLong (observeAll cfg b s ws) b =
           Some (int (length ws) * SLEEP_AMOUNT cfg > 200) \<and>
         (int (length ws) * SLEEP_AMOUNT cfg = 200 \<longrightarrow>
            xboxClickIsDownLong (observeAll cfg b s ws) b = Some False) \<and>
         (\<forall>w'. \<not> isPressed w' b \<longrightarrow>
            xboxClickIsDownLong (observe cfg b (observeAll cfg b s ws) w') b = Some False)"
  using held_invariant [OF assms, of cfg] by (simp add: observe_release_long)

theorem long_press_threshold_witness:
  "\<not> flag (xboxClickStateLastIteration (startState exampleConfig)) XINPUT_GAMEPAD_B \<and>
   isPressed 0x2000 XINPUT_GAMEPAD_B \<and>
   \<not> isPressed 0 XINPUT_GAMEPAD_B \<and>
   xboxClickIsDownLong
     (observeAll (exampleConfig\<lparr>SLEEP_AMOUNT := 5\<rparr>) XINPUT_GAMEPAD_B (startState exampleConfig)
        (replicate 40 0x2000)) XINPUT_GAMEPAD_B = Some False \<and>
   xboxClickIsDownLong
     (observeAll (exampleConfig\<lparr>SLEEP_AMOUNT := 5\<rparr>) XINPUT_GAMEPAD_B (startState exampleConfig)
        (replicate 41 0x2000)) XINPUT_GAMEPAD_B = Some True \<and>
   xboxClickIsDownLong
     (observeAll exampleConfig XINPUT_GAMEPAD_B (startState exampleConfig)
        (replicate 33 0x2000)) XINPUT_GAMEPAD_B = Some False \<and>
   xboxClickIsDownLong
     (observeAll exampleConfig XINPUT_GAMEPAD_B (startState exampleConfig)
        (replicate 34 0x2000)) XINPUT_GAMEPAD_B = Some True \<and>
   xboxClickIsDownLong
     (observe exampleConfig XINPUT_GAMEPAD_B
        (observeAll exampleConfig XINPUT_GAMEPAD_B (startState exampleConfig)
           (replicate 34 0x2000)) 0) XINPUT_GAMEPAD_B = Some False"
proof -
  let ?c = exampleConfig and ?b = XINPUT_GAMEPAD_B
  let ?s0 = "startState ?c"
  have up: "\<not> flag (xboxClickStateLastIteration ?s0) ?b"
    by (simp add: startState_def flag_def)
  have dn1: "isPressed 0x2000 ?b"
    by (simp add: isPressed_def XINPUT_GAMEPAD_B_def)
  then have dn: "\<forall>w\<in>set (replicate n 0x2000). isPressed w ?b" for n
    by simp
  have rel: "\<not> isPressed 0 ?b"
    by (simp add: isPressed_def XINPUT_GAMEPAD_B_def)
  have ne: "replicate 40 (0x2000 :: WORD) \<noteq> []" "replicate 41 (0x2000 :: WORD) \<noteq> []"
    "replicate 33 (0x2000 :: WORD) \<noteq> []" "replicate 34 (0x2000 :: WORD) \<noteq> []"
    by simp_all
  note a = long_press_threshold [OF up ne(1) dn, of "?c\<lparr>SLEEP_AMOUNT := 5\<rparr>"]
  note b = long_press_threshold [OF up ne(2) dn, of "?c\<lparr>SLEEP_AMOUNT := 5\<rparr>"]
  note c = long_press_threshold [OF up ne(3) dn, of ?c]
  note d = long_press_threshold [OF up ne(4) dn, of ?c]
  have sleep: "SLEEP_AMOUNT ?c = 6" by (simp add: exampleConfig_def)
  show ?thesis
    using up dn1 rel a b c d sleep by simp
qed

section \<open>Evaluating ticks\<close>

text \<open>
  A tick at a concrete state is evaluated by unfolding the blocks of the loop, each
  \<^theory_text>\<open>let\<close> after its bound state has been computed.
\<close>

lemmas mouseeventf_defs =
  MOUSEEVENTF_LEFTDOWN_def MOUSEEVENTF_LEFTUP_def MOUSEEVENTF_RIGHTDOWN_def
  MOUSEEVENTF_RIGHTUP_def MOUSEEVENTF_MIDDLEDOWN_def MOUSEEVENTF_MIDDLEUP_def
  MOUSEEVENTF_XDOWN_def MOUSEEVENTF_XUP_def MOUSEEVENTF_WHEEL_def MOUSEEVENTF_HWHEEL_def

lemmas xinput_defs =
  XINPUT_GAMEPAD_DPAD_UP_def XINPUT_GAMEPAD_DPAD_DOWN_def XINPUT_GAMEPAD_DPAD_LEFT_def
  XINPUT_GAMEPAD_DPAD_RIGHT_def XINPUT_GAMEPAD_START_def XINPUT_GAMEPAD_BACK_def
  XINPUT_GAMEPAD_LEFT_THUMB_def XINPUT_GAMEPAD_RIGHT_THUMB_def
  XINPUT_GAMEPAD_LEFT_SHOULDER_def XINPUT_GAMEPAD_RIGHT_SHOULDER_def
  XINPUT_GAMEPAD_A_def XINPUT_GAMEPAD_B_def XINPUT_GAMEPAD_X_def XINPUT_GAMEPAD_Y_def

lemmas tick_defs =
  loop_def handleDisableButton_def handleVibrationButton_def handleMouseMovement_def
  mouseDelta_def handleScrolling_def loop_mouseClicks_def mapMouseClick_def loop_hide_def
  loop_osk_def loop_speedChange_def loop_controllerKeys_def handleTriggers_def
  mapKeyboardIfBound_def mapKeyboard_def inputKeyboardDown_def inputKeyboardUp_def
  inputKeyboard_def mouseEvent_def pulseVibrate_def emit_def getDelta_def float_to_int_def
  setXboxClickState_eq clickUpdate_def isPressed_def flag_def counter_def
  exampleConfig_def startState_def padTick_def xinput_defs mouseeventf_defs vk_defs

lemma heldState_eval:
  "pressedKeys heldState = [VK_LBUTTON, 0x11, 0x43]"
  "emitted heldState =
     [SleepMs 6, SetCursorPos 100 100, MouseInput MOUSEEVENTF_LEFTDOWN 0,
      KeyboardInput [0x11, 0x43] 0]"
  "\<not> disabled heldState"
  "\<not> vibrationDisabled heldState"
  "\<not> flag (xboxClickStateLastIteration heldState) (CONFIG_DISABLE exampleConfig)"
  unfolding heldState_def
  by (simp_all add: tick_defs Let_def cong: let_weak_cong)

lemma disabledState_eval:
  "disabled disabledState"
  "emitted disabledState = [SleepMs 6, Vibrate 10000 10000, SleepMs 400, Vibrate 0 0]"
  "pressedKeys disabledState = []"
  "\<not> lTriggerPrevious disabledState"
  "flag (xboxClickStateLastIteration disabledState) (CONFIG_DISABLE exampleConfig)"
  unfolding disabledState_def
  by (simp_all add: tick_defs Let_def cong: let_weak_cong)

section \<open>The disable toggle\<close>

lemma mouseEvent_button_up:
  "f = MOUSEEVENTF_LEFTUP \<or> f = MOUSEEVENTF_RIGHTUP \<or> f = MOUSEEVENTF_MIDDLEUP \<Longrightarrow>
   mouseEvent f 0 s = s\<lparr>emitted := emitted s @ [MouseInput f 0]\<rparr>"
  by (simp add: mouseEvent_def emit_def)

lemma releasePressedKeys_eq:
  "releasePressedKeys ks kb s =
     (kb @ filter (\<lambda>k. \<not> isMouseButtonCode k) ks,
      s\<lparr>pressedKeys := [],
        emitted := emitted s @ map (\<lambda>k. MouseInput (mouseUpFor k) 0) (filter isMouseButtonCode ks)\<rparr>)"
proof (induction ks arbitrary: kb s)
  case Nil
  then show ?case by simp
next
  case (Cons k ks)
  show ?case
    by (simp add: Cons.IH mouseEvent_button_up isMouseButtonCode_def mouseUpFor_def vk_defs)
qed

lemma handleDisableButton_no_edge:
  assumes "\<not> edge (CONFIG_DISABLE cfg) (wButtons (currentState s)) s"
  shows "handleDisableButton cfg s = setXboxClickState cfg (CONFIG_DISABLE cfg) s"
  using assms by (simp add: handleDisableButton_def Let_def setXboxClickState_flags)

lemma handleDisableButton_disable:
  assumes "edge (CONFIG_DISABLE cfg) (wButtons (currentState s)) s"
      and "\<not> disabled s"
  shows "disabled (handleDisableButton cfg s) \<and>
         pressedKeys (handleDisableButton cfg s) = [] \<and>
         emitted (handleDisableButton cfg s) =
           emitted s @ releaseTrace (pressedKeys s) @
           (if vibrationDisabled s then []
            else [Vibrate 10000 10000, SleepMs 400, Vibrate 0 0])"
  using assms
  by (simp add: handleDisableButton_def Let_def setXboxClickState_flags
      setXboxClickState_frame releasePressedKeys_eq inputKeyboardUp_def inputKeyboard_def
      pulseVibrate_def emit_def releaseTrace_def)

lemma handleDisableButton_enable:
  assumes "edge (CONFIG_DISABLE cfg) (wButtons (currentState s)) s"
      and "disabled s"
  shows "\<not> disabled (handleDisableButton cfg s) \<and>
         pressedKeys (handleDisableButton cfg s) = pressedKeys s \<and>
         emitted (handleDisableButton cfg s) =
           emitted s @
           (if vibrationDisabled s then []
            else [Vibrate 65000 65000, SleepMs 400, Vibrate 0 0])"
  using assms
  by (simp add: handleDisableButton_def Let_def setXboxClickState_flags
      setXboxClickState_frame pulseVibrate_def emit_def)

lemma emit_frame:
  "disabled (emit e s) = disabled s"
  "pressedKeys (emit e s) = pressedKeys s"
  by (simp_all add: emit_def)

lemma erasePressedKey_disabled: "disabled (snd (erasePressedKey key s)) = disabled s"
  by (simp add: erasePressedKey_def split_def Let_def)

lemma erase_all_disabled:
  "disabled (foldl (\<lambda>s key. snd (erasePressedKey key s)) s keys) = disabled s"
  by (induction keys arbitrary: s) (simp_all add: erasePressedKey_disabled)

lemma mapKeyboard_disabled: "disabled (mapKeyboard cfg b keys s) = disabled s"
  by (simp add: mapKeyboard_def Let_def erase_all_disabled inputKeyboardUp_def
      inputKeyboardDown_def inputKeyboard_def emit_def setXboxClickState_frame)

lemma mapMouseClick_disabled: "disabled (mapMouseClick cfg b d u s) = disabled s"
  by (simp add: mapMouseClick_def Let_def erasePressedKey_disabled mouseEvent_def emit_def
      setXboxClickState_frame)

lemma handleTriggers_disabled: "disabled (handleTriggers cfg l r s) = disabled s"
  by (simp add: handleTriggers_def Let_def inputKeyboardUp_def inputKeyboardDown_def
      inputKeyboard_def emit_def)

lemma loop_controllerKeys_disabled: "disabled (loop_controllerKeys cfg s) = disabled s"
  by (simp add: loop_controllerKeys_def Let_def mapKeyboardIfBound_def mapKeyboard_disabled
      handleTriggers_disabled)

lemma loop_speedChange_disabled: "disabled (loop_speedChange cfg s) = disabled s"
  by (simp add: loop_speedChange_def changeSpeed_def Let_def pulseVibrate_def emit_def
      setXboxClickState_frame)

lemma loop_osk_disabled: "disabled (loop_osk cfg env s) = disabled s"
  by (simp add: loop_osk_def Let_def emit_def setXboxClickState_frame
      split: option.splits bool.splits)

lemma loop_hide_disabled: "disabled (loop_hide cfg s) = disabled s"
  by (simp add: loop_hide_def Let_def toggleWindowVisibility_def setWindowVisibility_def
      emit_def setXboxClickState_frame)

lemma loop_mouseClicks_disabled: "disabled (loop_mouseClicks cfg s) = disabled s"
  by (simp add: loop_mouseClicks_def Let_def mapMouseClick_disabled)

lemma handleScrolling_disabled: "disabled (handleScrolling cfg s) = disabled s"
  by (simp add: handleScrolling_def Let_def mouseEvent_def emit_def)

lemma handleMouseMovement_disabled: "disabled (handleMouseMovement cfg env s) = disabled s"
  by (simp add: handleMouseMovement_def Let_def split_def emit_def)

lemma handleVibrationButton_disabled: "disabled (handleVibrationButton cfg s) = disabled s"
  by (simp add: handleVibrationButton_def Let_def emit_def setXboxClickState_frame)

text \<open>The state on which the tick evaluates the disable button.\<close>

lemma edge_tick_start:
  "edge b w ((emit e s)\<lparr>currentState := g\<rparr>) = edge b w s"
  "disabled ((emit e s)\<lparr>currentState := g\<rparr>) = disabled s"
  by (simp_all add: edge_def emit_def)

lemma loop_disabled_after:
  "disabled (loop cfg env s) =
     disabled (handleDisableButton cfg ((emit (SleepMs (SLEEP_AMOUNT cfg)) s)\<lparr>currentState := pad env\<rparr>))"
  by (simp add: loop_def Let_def loop_controllerKeys_disabled loop_speedChange_disabled
      loop_osk_disabled loop_hide_disabled loop_mouseClicks_disabled handleScrolling_disabled
      handleMouseMovement_disabled handleVibrationButton_disabled)

lemma loop_when_disabled:
  "disabled (handleDisableButton cfg ((emit (SleepMs (SLEEP_AMOUNT cfg)) s)\<lparr>currentState := pad env\<rparr>)) \<Longrightarrow>
   loop cfg env s =
     handleDisableButton cfg ((emit (SleepMs (SLEEP_AMOUNT cfg)) s)\<lparr>currentState := pad env\<rparr>)"
  by (simp add: loop_def Let_def)

text \<open>
  C2. A tick starts enabled and its snapshot shows the press edge of the disable button.
  Then the tick ends disabled with \<^verbatim>\<open>_pressedKeys\<close> empty, and what it sends is, after the
  sleep of the tick: for every mouse-button code held (left, right, middle), in order, its
  own mouse-up event; then, if any other code was held, exactly one key-up call that
  carries every such code once per entry, in order; then the vibration pulse unless
  vibration is off. Nothing else is sent.
\<close>

theorem disable_releases_pressed_keys:
  assumes "\<not> disabled s"
      and "edge (CONFIG_DISABLE cfg) (wButtons (pad env)) s"
  shows "disabled (loop cfg env s) \<and>
         pressedKeys (loop cfg env s) = [] \<and>
         emitted (loop cfg env s) =
           emitted s @ [SleepMs (SLEEP_AMOUNT cfg)] @
           map (\<lambda>k. MouseInput (mouseUpFor k) 0) (filter isMouseButtonCode (pressedKeys s)) @
           (if filter (\<lambda>k. \<not> isMouseButtonCode k) (pressedKeys s) = [] then []
            else [KeyboardInput (filter (\<lambda>k. \<not> isMouseButtonCode k) (pressedKeys s))
                    KEYEVENTF_KEYUP]) @
           (if vibrationDisabled s then []
            else [Vibrate 10000 10000, SleepMs 400, Vibrate 0 0])"
proof -
  let ?t = "(emit (SleepMs (SLEEP_AMOUNT cfg)) s)\<lparr>currentState := pad env\<rparr>"
  have "edge (CONFIG_DISABLE cfg) (wButtons (currentState ?t)) ?t" "\<not> disabled ?t"
    using assms by (simp_all add: edge_tick_start)
  note h = handleDisableButton_disable [OF this]
  then have "loop cfg env s = handleDisableButton cfg ?t"
    by (simp add: loop_when_disabled)
  with h show ?thesis
    by (simp add: releaseTrace_def emit_def)
qed

theorem disable_releases_pressed_keys_witness:
  "\<not> disabled heldState \<and>
   pressedKeys heldState = [VK_LBUTTON, 0x11, 0x43] \<and>
   edge (CONFIG_DISABLE exampleConfig) (wButtons (pad (padTick 0x3030 0))) heldState \<and>
   disabled (loop exampleConfig (padTick 0x3030 0) heldState) \<and>
   pressedKeys (loop exampleConfig (padTick 0x3030 0) heldState) = [] \<and>
   emitted (loop exampleConfig (padTick 0x3030 0) heldState) =
     emitted heldState @
     [SleepMs 6, MouseInput MOUSEEVENTF_LEFTUP 0, KeyboardInput [0x11, 0x43] KEYEVENTF_KEYUP,
      Vibrate 10000 10000, SleepMs 400, Vibrate 0 0]"
proof -
  let ?c = exampleConfig
  have d: "\<not> disabled heldState" by (rule heldState_eval)
  have cd: "CONFIG_DISABLE ?c = 0x0030" "SLEEP_AMOUNT ?c = 6"
    by (simp_all add: exampleConfig_def)
  have e: "edge (CONFIG_DISABLE ?c) (wButtons (pad (padTick 0x3030 0))) heldState"
    using heldState_eval(5) by (simp add: cd edge_def isPressed_def padTick_def)
  show ?thesis
    using disable_releases_pressed_keys [OF d e] d e
    by (simp add: heldState_eval cd(2) isMouseButtonCode_def mouseUpFor_def vk_defs)
qed


text \<open>
  C3. A tick that starts disabled and whose snapshot does not show the press edge of the
  disable button does nothing but sleep, take the snapshot and run \<^verbatim>\<open>setXboxClickState\<close>
  for the disable button: it sends no mouse movement, scroll, click or key, leaves
  \<^verbatim>\<open>_pressedKeys\<close>, the remainders, the speed, the trigger memory and every other button's
  edge state as they were, and it records the disable button's state. A tick that starts
  disabled and does show the press edge ends enabled. \<^verbatim>\<open>loop\<close> reads \<^verbatim>\<open>_disabled\<close> after
  \<^verbatim>\<open>handleDisableButton\<close>: any tick that ends disabled, the one that enters the state
  included, consists of the sleep, the snapshot and \<^verbatim>\<open>handleDisableButton\<close> alone.
\<close>

theorem disabled_tick_skips_dispatch:
  "(disabled s \<and> \<not> edge (CONFIG_DISABLE cfg) (wButtons (pad env)) s \<longrightarrow>
      loop cfg env s =
        setXboxClickState cfg (CONFIG_DISABLE cfg)
          ((emit (SleepMs (SLEEP_AMOUNT cfg)) s)\<lparr>currentState := pad env\<rparr>) \<and>
      disabled (loop cfg env s) \<and>
      emitted (loop cfg env s) = emitted s @ [SleepMs (SLEEP_AMOUNT cfg)] \<and>
      pressedKeys (loop cfg env s) = pressedKeys s \<and>
      xRest (loop cfg env s) = xRest s \<and> yRest (loop cfg env s) = yRest s \<and>
      speed (loop cfg env s) = speed s \<and> speed_idx (loop cfg env s) = speed_idx s \<and>
      lTriggerPrevious (loop cfg env s) = lTriggerPrevious s \<and>
      rTriggerPrevious (loop cfg env s) = rTriggerPrevious s \<and>
      hidden (loop cfg env s) = hidden s \<and>
      vibrationDisabled (loop cfg env s) = vibrationDisabled s \<and>
      (\<forall>b. b \<noteq> CONFIG_DISABLE cfg \<longrightarrow>
         xboxClickStateLastIteration (loop cfg env s) b = xboxClickStateLastIteration s b \<and>
         xboxClickIsDown (loop cfg env s) b = xboxClickIsDown s b \<and>
         xboxClickIsUp (loop cfg env s) b = xboxClickIsUp s b \<and>
         xboxClickIsDownLong (loop cfg env s) b = xboxClickIsDownLong s b \<and>
         xboxClickDownLength (loop cfg env s) b = xboxClickDownLength s b) \<and>
      flag (xboxClickStateLastIteration (loop cfg env s)) (CONFIG_DISABLE cfg) =
        isPressed (wButtons (pad env)) (CONFIG_DISABLE cfg)) \<and>
   (disabled s \<and> edge (CONFIG_DISABLE cfg) (wButtons (pad env)) s \<longrightarrow>
      \<not> disabled (loop cfg env s)) \<and>
   (disabled (loop cfg env s) \<longrightarrow>
      loop cfg env s =
        handleDisableButton cfg
          ((emit (SleepMs (SLEEP_AMOUNT cfg)) s)\<lparr>currentState := pad env\<rparr>))"
proof (intro conjI impI)
  assume "disabled (loop cfg env s)"
  then show "loop cfg env s =
        handleDisableButton cfg
          ((emit (SleepMs (SLEEP_AMOUNT cfg)) s)\<lparr>currentState := pad env\<rparr>)"
    by (simp add: loop_disabled_after loop_when_disabled)
next
  let ?t = "(emit (SleepMs (SLEEP_AMOUNT cfg)) s)\<lparr>currentState := pad env\<rparr>"
  assume a: "disabled s \<and> edge (CONFIG_DISABLE cfg) (wButtons (pad env)) s"
  then have "edge (CONFIG_DISABLE cfg) (wButtons (currentState ?t)) ?t" "disabled ?t"
    by (simp_all add: edge_tick_start)
  from handleDisableButton_enable [OF this]
  show "\<not> disabled (loop cfg env s)" by (simp add: loop_disabled_after)
next
  let ?t = "(emit (SleepMs (SLEEP_AMOUNT cfg)) s)\<lparr>currentState := pad env\<rparr>"
  assume a: "disabled s \<and> \<not> edge (CONFIG_DISABLE cfg) (wButtons (pad env)) s"
  then have ne: "\<not> edge (CONFIG_DISABLE cfg) (wButtons (currentState ?t)) ?t"
    by (simp add: edge_tick_start)
  have dis: "disabled ?t" using a by (simp add: edge_tick_start)
  have h: "handleDisableButton cfg ?t = setXboxClickState cfg (CONFIG_DISABLE cfg) ?t"
    by (rule handleDisableButton_no_edge [OF ne])
  have "disabled (handleDisableButton cfg ?t)"
    by (simp add: h setXboxClickState_frame dis)
  from loop_when_disabled [OF this]
  show eq: "loop cfg env s = setXboxClickState cfg (CONFIG_DISABLE cfg) ?t"
    by (simp add: h)
  show "disabled (loop cfg env s)" by (simp add: eq setXboxClickState_frame dis)
  show "emitted (loop cfg env s) = emitted s @ [SleepMs (SLEEP_AMOUNT cfg)]"
    by (simp add: eq setXboxClickState_frame emit_def)
  show "pressedKeys (loop cfg env s) = pressedKeys s"
    by (simp add: eq setXboxClickState_frame emit_def)
  show "xRest (loop cfg env s) = xRest s" by (simp add: eq setXboxClickState_frame emit_def)
  show "yRest (loop cfg env s) = yRest s" by (simp add: eq setXboxClickState_frame emit_def)
  show "speed (loop cfg env s) = speed s" by (simp add: eq setXboxClickState_frame emit_def)
  show "speed_idx (loop cfg env s) = speed_idx s"
    by (simp add: eq setXboxClickState_frame emit_def)
  show "lTriggerPrevious (loop cfg env s) = lTriggerPrevious s"
    by (simp add: eq setXboxClickState_frame emit_def)
  show "rTriggerPrevious (loop cfg env s) = rTriggerPrevious s"
    by (simp add: eq setXboxClickState_frame emit_def)
  show "hidden (loop cfg env s) = hidden s" by (simp add: eq setXboxClickState_frame emit_def)
  show "vibrationDisabled (loop cfg env s) = vibrationDisabled s"
    by (simp add: eq setXboxClickState_frame emit_def)
  show "\<forall>b. b \<noteq> CONFIG_DISABLE cfg \<longrightarrow>
         xboxClickStateLastIteration (loop cfg env s) b = xboxClickStateLastIteration s b \<and>
         xboxClickIsDown (loop cfg env s) b = xboxClickIsDown s b \<and>
         xboxClickIsUp (loop cfg env s) b = xboxClickIsUp s b \<and>
         xboxClickIsDownLong (loop cfg env s) b = xboxClickIsDownLong s b \<and>
         xboxClickDownLength (loop cfg env s) b = xboxClickDownLength s b"
    by (simp add: eq setXboxClickState_other emit_def)
  show "flag (xboxClickStateLastIteration (loop cfg env s)) (CONFIG_DISABLE cfg) =
        isPressed (wButtons (pad env)) (CONFIG_DISABLE cfg)"
    by (simp add: eq setXboxClickState_flags)
qed

theorem disabled_tick_skips_dispatch_witness:
  "disabled disabledState \<and>
   \<not> edge (CONFIG_DISABLE exampleConfig) (wButtons (pad (busyTick 0x1000))) disabledState \<and>
   emitted (loop exampleConfig (busyTick 0x1000) disabledState) =
     emitted disabledState @ [SleepMs 6] \<and>
   pressedKeys (loop exampleConfig (busyTick 0x1000) disabledState) = [] \<and>
   \<not> lTriggerPrevious (loop exampleConfig (busyTick 0x1000) disabledState) \<and>
   disabled (loop exampleConfig (busyTick 0x1000) disabledState) \<and>
   edge (CONFIG_DISABLE exampleConfig) (wButtons (pad (busyTick 0x0030)))
     (loop exampleConfig (busyTick 0x1000) disabledState) \<and>
   \<not> disabled (loop exampleConfig (busyTick 0x0030)
                  (loop exampleConfig (busyTick 0x1000) disabledState))"
proof -
  let ?c = exampleConfig
  let ?s = disabledState
  let ?s' = "loop ?c (busyTick 0x1000) ?s"
  have cd: "CONFIG_DISABLE ?c = 0x0030" "SLEEP_AMOUNT ?c = 6"
    by (simp_all add: exampleConfig_def)
  have d: "disabled ?s" by (rule disabledState_eval)
  have e1: "\<not> edge (CONFIG_DISABLE ?c) (wButtons (pad (busyTick 0x1000))) ?s"
    by (simp add: cd edge_def isPressed_def busyTick_def)
  have t1: "emitted ?s' = emitted ?s @ [SleepMs (SLEEP_AMOUNT ?c)] \<and>
            pressedKeys ?s' = pressedKeys ?s \<and>
            lTriggerPrevious ?s' = lTriggerPrevious ?s \<and>
            disabled ?s' \<and>
            flag (xboxClickStateLastIteration ?s') (CONFIG_DISABLE ?c) =
              isPressed (wButtons (pad (busyTick 0x1000))) (CONFIG_DISABLE ?c)"
    using disabled_tick_skips_dispatch [of ?s ?c "busyTick 0x1000"] d e1 by blast
  then have e2: "edge (CONFIG_DISABLE ?c) (wButtons (pad (busyTick 0x0030))) ?s'"
    by (simp add: cd edge_def isPressed_def busyTick_def)
  have t2: "\<not> disabled (loop ?c (busyTick 0x0030) ?s')"
    using disabled_tick_skips_dispatch [of ?s' ?c "busyTick 0x0030"] t1 e2 by blast
  show ?thesis
    using d e1 t1 e2 t2 by (simp add: disabledState_eval cd(2))
qed

section \<open>Held keys\<close>

lemma unmatchedDowns_snoc:
  "unmatchedDowns c (evs @ [e]) = unmatchedDowns c evs + eventDowns c e - eventUps c e"
  by (simp add: unmatchedDowns_def)

lemma unmatchedDowns_other:
  "eventDowns c e = 0 \<Longrightarrow> eventUps c e = 0 \<Longrightarrow>
   unmatchedDowns c (evs @ [e]) = unmatchedDowns c evs"
  by (simp add: unmatchedDowns_snoc)

lemma event_counts:
  "eventDowns c (KeyboardInput keys 0) = count_list keys c"
  "eventUps c (KeyboardInput keys 0) = 0"
  "eventDowns c (KeyboardInput keys KEYEVENTF_KEYUP) = 0"
  "eventUps c (KeyboardInput keys KEYEVENTF_KEYUP) = count_list keys c"
  "eventDowns c (SetCursorPos x y) = 0" "eventUps c (SetCursorPos x y) = 0"
  "eventDowns c (Vibrate l r) = 0" "eventUps c (Vibrate l r) = 0"
  "eventDowns c (SleepMs d) = 0" "eventUps c (SleepMs d) = 0"
  "eventDowns c (ShowWindow w m) = 0" "eventUps c (ShowWindow w m) = 0"
  "eventDowns c (MouseInput MOUSEEVENTF_WHEEL a) = 0"
  "eventUps c (MouseInput MOUSEEVENTF_WHEEL a) = 0"
  "eventDowns c (MouseInput MOUSEEVENTF_HWHEEL a) = 0"
  "eventUps c (MouseInput MOUSEEVENTF_HWHEEL a) = 0"
  "eventDowns c (MouseInput MOUSEEVENTF_LEFTDOWN a) = (if c = VK_LBUTTON then 1 else 0)"
  "eventUps c (MouseInput MOUSEEVENTF_LEFTDOWN a) = 0"
  "eventDowns c (MouseInput MOUSEEVENTF_RIGHTDOWN a) = (if c = VK_RBUTTON then 1 else 0)"
  "eventUps c (MouseInput MOUSEEVENTF_RIGHTDOWN a) = 0"
  "eventDowns c (MouseInput MOUSEEVENTF_MIDDLEDOWN a) = (if c = VK_MBUTTON then 1 else 0)"
  "eventUps c (MouseInput MOUSEEVENTF_MIDDLEDOWN a) = 0"
  "eventDowns c (MouseInput MOUSEEVENTF_LEFTUP a) = 0"
  "eventUps c (MouseInput MOUSEEVENTF_LEFTUP a) = (if c = VK_LBUTTON then 1 else 0)"
  "eventDowns c (MouseInput MOUSEEVENTF_RIGHTUP a) = 0"
  "eventUps c (MouseInput MOUSEEVENTF_RIGHTUP a) = (if c = VK_RBUTTON then 1 else 0)"
  "eventDowns c (MouseInput MOUSEEVENTF_MIDDLEUP a) = 0"
  "eventUps c (MouseInput MOUSEEVENTF_MIDDLEUP a) = (if c = VK_MBUTTON then 1 else 0)"
  by (simp_all add: eventDowns_def eventUps_def KEYEVENTF_KEYUP_def mouseeventf_defs)

lemma unmatchedDowns_append:
  "unmatchedDowns c (evs @ es) =
     foldl (\<lambda>n e. n + eventDowns c e - eventUps c e) (unmatchedDowns c evs) es"
  by (simp add: unmatchedDowns_def)

lemma erase_first_count:
  "count_list (snd (erase_first key ks)) c =
     (if key = c then count_list ks c - 1 else count_list ks c)"
  by (induction ks) (auto simp: split_def Let_def)

lemma erasePressedKey_count:
  "count_list (pressedKeys (snd (erasePressedKey key s))) c =
     (if key = c then count_list (pressedKeys s) c - 1 else count_list (pressedKeys s) c)"
  "emitted (snd (erasePressedKey key s)) = emitted s"
  by (simp_all add: erasePressedKey_def split_def Let_def erase_first_count)

lemma erase_all_count:
  "count_list (pressedKeys (foldl (\<lambda>s key. snd (erasePressedKey key s)) s keys)) c =
     count_list (pressedKeys s) c - count_list keys c \<and>
   emitted (foldl (\<lambda>s key. snd (erasePressedKey key s)) s keys) = emitted s"
  by (induction keys arbitrary: s) (simp_all add: erasePressedKey_count)

lemma mapKeyboard_tracked:
  assumes "tracked s"
  shows "tracked (mapKeyboard cfg b keys s)"
  using assms unfolding tracked_def
  by (simp add: mapKeyboard_def Let_def inputKeyboardDown_def inputKeyboardUp_def
      inputKeyboard_def emit_def erase_all_count setXboxClickState_frame unmatchedDowns_snoc event_counts)


lemma flags_distinct:
  "MOUSEEVENTF_RIGHTDOWN \<noteq> MOUSEEVENTF_LEFTDOWN"
  "MOUSEEVENTF_MIDDLEDOWN \<noteq> MOUSEEVENTF_LEFTDOWN"
  "MOUSEEVENTF_MIDDLEDOWN \<noteq> MOUSEEVENTF_RIGHTDOWN"
  "MOUSEEVENTF_RIGHTUP \<noteq> MOUSEEVENTF_LEFTUP"
  "MOUSEEVENTF_MIDDLEUP \<noteq> MOUSEEVENTF_LEFTUP"
  "MOUSEEVENTF_MIDDLEUP \<noteq> MOUSEEVENTF_RIGHTUP"
  by (simp_all add: mouseeventf_defs)

lemma mapMouseClick_tracked:
  assumes "tracked s"
  shows "tracked (mapMouseClick cfg b MOUSEEVENTF_LEFTDOWN MOUSEEVENTF_LEFTUP s)"
    and "tracked (mapMouseClick cfg b MOUSEEVENTF_RIGHTDOWN MOUSEEVENTF_RIGHTUP s)"
    and "tracked (mapMouseClick cfg b MOUSEEVENTF_MIDDLEDOWN MOUSEEVENTF_MIDDLEUP s)"
  using assms unfolding tracked_def
  by (auto simp add: mapMouseClick_def Let_def mouseEvent_def emit_def erasePressedKey_count
      setXboxClickState_frame unmatchedDowns_append flags_distinct event_counts)

lemma handleTriggers_unbound_tracked:
  assumes "tracked s"
  shows "tracked (handleTriggers cfg [] [] s)"
  using assms unfolding tracked_def
  by (simp add: handleTriggers_def Let_def inputKeyboardDown_def inputKeyboardUp_def
      inputKeyboard_def emit_def unmatchedDowns_append event_counts)

lemma unmatchedDowns_mouse_ups:
  "unmatchedDowns c (evs @ map (\<lambda>k. MouseInput (mouseUpFor k) 0) (filter isMouseButtonCode ks)) =
     unmatchedDowns c evs - count_list (filter isMouseButtonCode ks) c"
proof (induction ks rule: rev_induct)
  case Nil
  then show ?case by simp
next
  case (snoc k ks)
  show ?case
  proof (cases "isMouseButtonCode k")
    case True
    have "unmatchedDowns c ((evs @ map (\<lambda>k. MouseInput (mouseUpFor k) 0)
              (filter isMouseButtonCode ks)) @ [MouseInput (mouseUpFor k) 0]) =
          unmatchedDowns c evs - count_list (filter isMouseButtonCode ks) c
            - (if k = c then 1 else 0)"
      unfolding unmatchedDowns_snoc snoc.IH using True
      by (auto simp: isMouseButtonCode_def mouseUpFor_def vk_defs event_counts)
    then show ?thesis using True by simp
  next
    case False
    then show ?thesis using snoc.IH by simp
  qed
qed

lemma count_list_partition:
  "count_list (filter P ks) c + count_list (filter (\<lambda>k. \<not> P k) ks) c = count_list ks c"
  by (induction ks) auto

lemma unmatchedDowns_release:
  assumes "unmatchedDowns c evs = count_list ks c"
  shows "unmatchedDowns c (evs @ releaseTrace ks) = 0"
proof -
  let ?m = "map (\<lambda>k. MouseInput (mouseUpFor k) 0) (filter isMouseButtonCode ks)"
  let ?kb = "filter (\<lambda>k. \<not> isMouseButtonCode k) ks"
  have m: "unmatchedDowns c (evs @ ?m) = count_list ks c - count_list (filter isMouseButtonCode ks) c"
    by (simp add: unmatchedDowns_mouse_ups assms)
  show ?thesis
  proof (cases "?kb = []")
    case True
    then have "count_list ?kb c = 0" by simp
    with count_list_partition [of isMouseButtonCode ks c]
    have "count_list (filter isMouseButtonCode ks) c = count_list ks c" by simp
    with m True show ?thesis by (simp add: releaseTrace_def)
  next
    case False
    have "unmatchedDowns c ((evs @ ?m) @ [KeyboardInput ?kb KEYEVENTF_KEYUP]) =
          count_list ks c - count_list (filter isMouseButtonCode ks) c - count_list ?kb c"
      unfolding unmatchedDowns_snoc m by (simp add: event_counts)
    also have "\<dots> = 0"
      using count_list_partition [of isMouseButtonCode ks c] by simp
    finally show ?thesis using False by (simp add: releaseTrace_def)
  qed
qed

lemma pulseVibrate_tracked:
  "unmatchedDowns c (emitted (pulseVibrate d l r s)) = unmatchedDowns c (emitted s)"
  "pressedKeys (pulseVibrate d l r s) = pressedKeys s"
  by (simp_all add: pulseVibrate_def emit_def unmatchedDowns_append event_counts)

lemma handleDisableButton_tracked:
  assumes "tracked s"
  shows "tracked (handleDisableButton cfg s)"
proof -
  let ?s1 = "setXboxClickState cfg (CONFIG_DISABLE cfg) s"
  have t1: "\<And>c. count_list (pressedKeys ?s1) c = unmatchedDowns c (emitted ?s1)"
    using assms by (simp add: tracked_def setXboxClickState_frame)
  show ?thesis
  proof (cases "edge (CONFIG_DISABLE cfg) (wButtons (currentState s)) s")
    case False
    then show ?thesis
      using t1 by (simp add: handleDisableButton_no_edge tracked_def)
  next
    case True
    show ?thesis
    proof (cases "disabled s")
      case d: True
      show ?thesis
        using True d t1
        by (simp add: tracked_def handleDisableButton_def Let_def setXboxClickState_flags
            setXboxClickState_frame pulseVibrate_tracked)
    next
      case d: False
      have rel: "\<And>c. unmatchedDowns c (emitted s @ releaseTrace (pressedKeys s)) = 0"
        using assms by (intro unmatchedDowns_release) (simp add: tracked_def)
      have em: "emitted (handleDisableButton cfg s) =
          (emitted s @ releaseTrace (pressedKeys s)) @
          (if vibrationDisabled s then [] else [Vibrate 10000 10000, SleepMs 400, Vibrate 0 0])"
        using handleDisableButton_disable [OF True d] by simp
      have "unmatchedDowns c (emitted (handleDisableButton cfg s)) = 0" for c
      proof -
        have "unmatchedDowns c (emitted (handleDisableButton cfg s)) =
              foldl (\<lambda>n e. n + eventDowns c e - eventUps c e)
                (unmatchedDowns c (emitted s @ releaseTrace (pressedKeys s)))
                (if vibrationDisabled s then []
                 else [Vibrate 10000 10000, SleepMs 400, Vibrate 0 0])"
          unfolding em by (rule unmatchedDowns_append event_counts)
        then show ?thesis by (simp add: rel event_counts)
      qed
      moreover have "pressedKeys (handleDisableButton cfg s) = []"
        using handleDisableButton_disable [OF True d] by simp
      ultimately show ?thesis by (simp add: tracked_def)
    qed
  qed
qed


lemma handleVibrationButton_tracked: "tracked s \<Longrightarrow> tracked (handleVibrationButton cfg s)"
  by (simp add: tracked_def handleVibrationButton_def Let_def emit_def setXboxClickState_frame
      unmatchedDowns_snoc event_counts)

lemma handleMouseMovement_tracked: "tracked s \<Longrightarrow> tracked (handleMouseMovement cfg env s)"
  by (simp add: tracked_def handleMouseMovement_def Let_def split_def emit_def
      unmatchedDowns_snoc event_counts)

lemma handleScrolling_tracked: "tracked s \<Longrightarrow> tracked (handleScrolling cfg s)"
  by (simp add: tracked_def handleScrolling_def Let_def mouseEvent_def emit_def
      unmatchedDowns_append event_counts)

lemma loop_mouseClicks_tracked: "tracked s \<Longrightarrow> tracked (loop_mouseClicks cfg s)"
  by (simp add: loop_mouseClicks_def Let_def mapMouseClick_tracked)

lemma loop_hide_tracked: "tracked s \<Longrightarrow> tracked (loop_hide cfg s)"
  by (simp add: tracked_def loop_hide_def Let_def toggleWindowVisibility_def
      setWindowVisibility_def emit_def setXboxClickState_frame unmatchedDowns_snoc event_counts)

lemma loop_osk_tracked: "tracked s \<Longrightarrow> tracked (loop_osk cfg env s)"
  by (simp add: tracked_def loop_osk_def Let_def emit_def setXboxClickState_frame
      unmatchedDowns_snoc event_counts split: option.splits bool.splits)

lemma loop_speedChange_tracked: "tracked s \<Longrightarrow> tracked (loop_speedChange cfg s)"
  by (simp add: tracked_def loop_speedChange_def changeSpeed_def Let_def pulseVibrate_tracked
      setXboxClickState_frame)

lemma loop_controllerKeys_tracked:
  assumes "tracked s" and "GAMEPAD_TRIGGER_LEFT cfg = []" and "GAMEPAD_TRIGGER_RIGHT cfg = []"
  shows "tracked (loop_controllerKeys cfg s)"
  using assms
  by (simp add: loop_controllerKeys_def Let_def mapKeyboardIfBound_def mapKeyboard_tracked
      handleTriggers_unbound_tracked)

lemma tick_start_tracked:
  "tracked s \<Longrightarrow> tracked ((emit (SleepMs d) s)\<lparr>currentState := g\<rparr>)"
  by (simp add: tracked_def emit_def unmatchedDowns_snoc event_counts)

text \<open>
  With no key bound to either trigger, a tick keeps the list of held codes in step with the
  trace: every code is in \<^verbatim>\<open>_pressedKeys\<close> as often as it has unmatched down events.
\<close>

lemma loop_tracked:
  assumes "tracked s" and "GAMEPAD_TRIGGER_LEFT cfg = []" and "GAMEPAD_TRIGGER_RIGHT cfg = []"
  shows "tracked (loop cfg env s)"
  using assms
  by (simp add: loop_def Let_def tick_start_tracked handleDisableButton_tracked
      handleVibrationButton_tracked handleMouseMovement_tracked handleScrolling_tracked
      loop_mouseClicks_tracked loop_hide_tracked loop_osk_tracked loop_speedChange_tracked
      loop_controllerKeys_tracked)

lemma startState_tracked: "tracked (startState cfg)"
  by (simp add: tracked_def startState_def unmatchedDowns_def)

text \<open>
  C1. The invariant of \<^verbatim>\<open>_pressedKeys\<close> does not hold on the trigger path. With the space
  bar bound to the left trigger,
  the tick that sees the trigger pulled sends the key-down for code \<open>0x20\<close> and leaves
  \<^verbatim>\<open>_pressedKeys\<close> empty: the code has an unmatched down event and is not in the list.
  The next tick sees the disable command with the trigger still pulled; it disables the
  mapper and sends no key-up for the code, which stays down. (With no key bound to a
  trigger every tick keeps the invariant: \<open>loop_tracked\<close>.)
\<close>

theorem trigger_key_not_tracked:
  "emitted triggerHeldState = [SleepMs 6, SetCursorPos 100 100, KeyboardInput [0x20] 0] \<and>
   unmatchedDowns 0x20 (emitted triggerHeldState) = 1 \<and>
   0x20 \<notin> set (pressedKeys triggerHeldState) \<and>
   emitted (loop exampleConfig (padTick 0x0030 255) triggerHeldState) =
     emitted triggerHeldState @ [SleepMs 6, Vibrate 10000 10000, SleepMs 400, Vibrate 0 0] \<and>
   disabled (loop exampleConfig (padTick 0x0030 255) triggerHeldState) \<and>
   pressedKeys (loop exampleConfig (padTick 0x0030 255) triggerHeldState) = [] \<and>
   unmatchedDowns 0x20 (emitted (loop exampleConfig (padTick 0x0030 255) triggerHeldState)) = 1 \<and>
   \<not> tracked triggerHeldState \<and>
   \<not> tracked (loop exampleConfig (padTick 0x0030 255) triggerHeldState)"
proof -
  have ev: "emitted triggerHeldState = [SleepMs 6, SetCursorPos 100 100, KeyboardInput [0x20] 0]"
    "pressedKeys triggerHeldState = []"
    "emitted (loop exampleConfig (padTick 0x0030 255) triggerHeldState) =
       [SleepMs 6, SetCursorPos 100 100, KeyboardInput [0x20] 0,
        SleepMs 6, Vibrate 10000 10000, SleepMs 400, Vibrate 0 0]"
    "disabled (loop exampleConfig (padTick 0x0030 255) triggerHeldState)"
    "pressedKeys (loop exampleConfig (padTick 0x0030 255) triggerHeldState) = []"
    unfolding triggerHeldState_def
    by (simp_all add: tick_defs Let_def cong: let_weak_cong)
  have n: "unmatchedDowns 0x20 [SleepMs 6, SetCursorPos 100 100, KeyboardInput [0x20] 0] = 1"
    "unmatchedDowns 0x20 [SleepMs 6, SetCursorPos 100 100, KeyboardInput [0x20] 0,
        SleepMs 6, Vibrate 10000 10000, SleepMs 400, Vibrate 0 0] = 1"
    by (simp_all add: unmatchedDowns_def event_counts)
  have "\<not> tracked triggerHeldState"
  proof
    assume "tracked triggerHeldState"
    then have "count_list (pressedKeys triggerHeldState) 0x20 =
               unmatchedDowns 0x20 (emitted triggerHeldState)"
      by (simp add: tracked_def)
    then show False by (simp add: ev n)
  qed
  moreover have "\<not> tracked (loop exampleConfig (padTick 0x0030 255) triggerHeldState)"
  proof
    let ?s = "loop exampleConfig (padTick 0x0030 255) triggerHeldState"
    assume "tracked ?s"
    then have "count_list (pressedKeys ?s) 0x20 = unmatchedDowns 0x20 (emitted ?s)"
      by (simp add: tracked_def)
    then show False by (simp add: ev n)
  qed
  ultimately show ?thesis by (simp add: ev n)
qed

section \<open>Speed cycling\<close>










section \<open>Stick readings\<close>

lemma sint_short_range: "- 32768 \<le> sint (t :: SHORT) \<and> sint t \<le> 32767"
  using sint_ge [of t] sint_lt [of t] by simp

text \<open>
  C9. \<^verbatim>\<open>getDelta\<close> takes a \<^verbatim>\<open>short\<close>. It returns the reading unchanged, as a real number;
  this is what the specification's rule gives on the reading (zero outside the signed
  16-bit range, the value itself inside), since no \<^verbatim>\<open>short\<close> lies outside that range and
  neither guard of the function can fire.
\<close>

theorem getDelta_identity:
  "getDelta t = real_of_int (sint t) \<and>
   getDelta t = spec_getDelta (sint t) \<and>
   \<not> sint t > 32767 \<and> \<not> sint t < - 32768"
  using sint_short_range [of t]
  by (simp add: getDelta_def spec_getDelta_def Let_def)

section \<open>Cursor movement\<close>











section \<open>Scrolling\<close>





lemma handleScrolling_silent:
  assumes "\<not> sqrt (fst (scrollStick cfg s) * fst (scrollStick cfg s) +
                 snd (scrollStick cfg s) * snd (scrollStick cfg s))
             > real_of_int (SCROLL_DEAD_ZONE cfg)"
  shows "emitted (handleScrolling cfg s) = emitted s"
  using assms
  by (simp add: handleScrolling_def scrollStick_def Let_def split: if_splits)








end
